theory Spec2Isabelle
  imports Main "HOL-Library.AList"
begin

section \<open>JavaScript values\<close>

text \<open>
  The framework passes untyped values around (\<^verbatim>\<open>any\<close>, \<^verbatim>\<open>unknown\<close>,
  \<^verbatim>\<open>Record<string, any>\<close>): error details, configuration trees, database clients.
  They are modelled by one datatype. \<open>JFun f\<close> is a function, known by a name only.
  An object has own data properties, in insertion order, and a prototype. \<open>JObj ps\<close> is
  the ordinary case, an extensible object whose prototype is \<^verbatim>\<open>Object.prototype\<close> (an
  object literal, a parsed JSON object); \<open>JObject i ps p\<close> is any other object: its
  integrity level (extensible, or closed to new properties by \<^verbatim>\<open>Object.preventExtensions\<close>
  or \<^verbatim>\<open>Object.seal\<close>, or frozen by \<^verbatim>\<open>Object.freeze\<close>), its own properties and its
  prototype (\<open>JNull\<close> for none). Accessor properties other than the inherited
  \<^verbatim>\<open>__proto__\<close> are not modelled. Numbers are integers: no claim needs a fraction.
\<close>

datatype integrity = Extensible | NonExtensible | Frozen

datatype jsval =
    JUndefined
  | JNull
  | JBool bool
  | JNum int
  | JStr string
  | JFun string
  | JObj "(string \<times> jsval) list"
  | JObject integrity "(string \<times> jsval) list" jsval

text \<open>Truthiness, as \<^verbatim>\<open>if (v)\<close>, \<^verbatim>\<open>!v\<close>, \<^verbatim>\<open>a || b\<close> and \<^verbatim>\<open>a && b\<close> test it.\<close>

fun truthy :: "jsval \<Rightarrow> bool" where
  "truthy JUndefined = False"
| "truthy JNull = False"
| "truthy (JBool b) = b"
| "truthy (JNum n) = (n \<noteq> 0)"
| "truthy (JStr s) = (s \<noteq> [])"
| "truthy (JFun f) = True"
| "truthy (JObj ps) = True"
| "truthy (JObject i ps p) = True"

text \<open>\<^verbatim>\<open>a || b\<close> on an optional string: an omitted argument and the empty string are falsy.\<close>

fun or_else :: "string option \<Rightarrow> string \<Rightarrow> string" where
  "or_else None d = d"
| "or_else (Some s) d = (if s = [] then d else s)"

text \<open>
  The own properties of \<^verbatim>\<open>Object.prototype\<close>, which every ordinary object inherits.
  \<^verbatim>\<open>__proto__\<close> is an accessor; it is listed with the name of its getter.
\<close>

definition Object_prototype_members :: "(string \<times> jsval) list" where
  "Object_prototype_members =
     [(''constructor'', JFun ''Object''),
      (''__defineGetter__'', JFun ''__defineGetter__''),
      (''__defineSetter__'', JFun ''__defineSetter__''),
      (''hasOwnProperty'', JFun ''hasOwnProperty''),
      (''__lookupGetter__'', JFun ''__lookupGetter__''),
      (''__lookupSetter__'', JFun ''__lookupSetter__''),
      (''isPrototypeOf'', JFun ''isPrototypeOf''),
      (''propertyIsEnumerable'', JFun ''propertyIsEnumerable''),
      (''toString'', JFun ''toString''),
      (''valueOf'', JFun ''valueOf''),
      (''__proto__'', JFun ''get __proto__''),
      (''toLocaleString'', JFun ''toLocaleString'')]"

definition Object_prototype :: jsval where
  "Object_prototype = JObject Extensible Object_prototype_members JNull"

fun proto_of :: "jsval \<Rightarrow> jsval" where
  "proto_of (JObj ps) = Object_prototype"
| "proto_of (JObject i ps p) = p"
| "proto_of v = JNull"

text \<open>
  \<^verbatim>\<open>typeof v === 'object'\<close>, and the search for a property along the prototype chain:
  the object's own properties first, then those of its prototype, and so on.
\<close>

fun typeof_object :: "jsval \<Rightarrow> bool" where
  "typeof_object JNull = True"
| "typeof_object (JObj ps) = True"
| "typeof_object (JObject i ps p) = True"
| "typeof_object v = False"

fun lookup :: "jsval \<Rightarrow> string \<Rightarrow> jsval option" where
  "lookup (JObj ps) k =
     (case map_of ps k of Some w \<Rightarrow> Some w | None \<Rightarrow> map_of Object_prototype_members k)"
| "lookup (JObject i ps p) k =
     (case map_of ps k of Some w \<Rightarrow> Some w | None \<Rightarrow> lookup p k)"
| "lookup v k = None"

text \<open>
  \<^verbatim>\<open>k in v\<close> and \<^verbatim>\<open>v[k]\<close> for an object \<open>v\<close>: both follow the prototype chain, and
  reading the accessor \<^verbatim>\<open>__proto__\<close> gives the prototype of the object that is read.
  A property read on a value that has no such property gives \<^verbatim>\<open>undefined\<close>; the
  drivers read \<^verbatim>\<open>client?.$disconnect\<close> and \<^verbatim>\<open>client?.end\<close> on any client, which
  gives \<^verbatim>\<open>undefined\<close> for \<^verbatim>\<open>null\<close>, \<^verbatim>\<open>undefined\<close> and the primitives alike.
\<close>

definition js_in :: "string \<Rightarrow> jsval \<Rightarrow> bool" where
  "js_in k v = (lookup v k \<noteq> None)"

definition js_get :: "jsval \<Rightarrow> string \<Rightarrow> jsval" where
  "js_get v k =
     (case lookup v k of
        None \<Rightarrow> JUndefined
      | Some w \<Rightarrow> if w = JFun ''get __proto__'' then proto_of v else w)"

section \<open>The error taxonomy\<close>

text \<open>\<^verbatim>\<open>enum ErrorCode\<close> of \<^verbatim>\<open>FrourioFrameworkError.ts\<close>.\<close>

datatype ErrorCode =
    INTERNAL_SERVER_ERROR
  | VALIDATION_ERROR
  | NOT_FOUND
  | UNAUTHORIZED
  | FORBIDDEN
  | BAD_REQUEST
  | USER_ALREADY_EXISTS
  | USER_NOT_FOUND
  | INVALID_CREDENTIALS
  | USER_NOT_VERIFIED
  | WEAK_PASSWORD
  | INVALID_TOKEN
  | TOKEN_EXPIRED
  | ADMIN_NOT_FOUND
  | ADMIN_ALREADY_EXISTS
  | INSUFFICIENT_PERMISSIONS
  | EMAIL_SEND_FAILED
  | INVALID_EMAIL_FORMAT
  | DATABASE_NOT_INITIALIZED
  | DATABASE_CONNECTION_NOT_CONFIGURED
  | DATABASE_UNSUPPORTED_DRIVER
  | DATABASE_CLIENT_UNAVAILABLE
  | DATABASE_CLIENT_CREATION_FAILED

text \<open>The enumeration is a string enum: each member's value is its own name.\<close>

fun ErrorCode_value :: "ErrorCode \<Rightarrow> string" where
  "ErrorCode_value INTERNAL_SERVER_ERROR = ''INTERNAL_SERVER_ERROR''"
| "ErrorCode_value VALIDATION_ERROR = ''VALIDATION_ERROR''"
| "ErrorCode_value NOT_FOUND = ''NOT_FOUND''"
| "ErrorCode_value UNAUTHORIZED = ''UNAUTHORIZED''"
| "ErrorCode_value FORBIDDEN = ''FORBIDDEN''"
| "ErrorCode_value BAD_REQUEST = ''BAD_REQUEST''"
| "ErrorCode_value USER_ALREADY_EXISTS = ''USER_ALREADY_EXISTS''"
| "ErrorCode_value USER_NOT_FOUND = ''USER_NOT_FOUND''"
| "ErrorCode_value INVALID_CREDENTIALS = ''INVALID_CREDENTIALS''"
| "ErrorCode_value USER_NOT_VERIFIED = ''USER_NOT_VERIFIED''"
| "ErrorCode_value WEAK_PASSWORD = ''WEAK_PASSWORD''"
| "ErrorCode_value INVALID_TOKEN = ''INVALID_TOKEN''"
| "ErrorCode_value TOKEN_EXPIRED = ''TOKEN_EXPIRED''"
| "ErrorCode_value ADMIN_NOT_FOUND = ''ADMIN_NOT_FOUND''"
| "ErrorCode_value ADMIN_ALREADY_EXISTS = ''ADMIN_ALREADY_EXISTS''"
| "ErrorCode_value INSUFFICIENT_PERMISSIONS = ''INSUFFICIENT_PERMISSIONS''"
| "ErrorCode_value EMAIL_SEND_FAILED = ''EMAIL_SEND_FAILED''"
| "ErrorCode_value INVALID_EMAIL_FORMAT = ''INVALID_EMAIL_FORMAT''"
| "ErrorCode_value DATABASE_NOT_INITIALIZED = ''DATABASE_NOT_INITIALIZED''"
| "ErrorCode_value DATABASE_CONNECTION_NOT_CONFIGURED = ''DATABASE_CONNECTION_NOT_CONFIGURED''"
| "ErrorCode_value DATABASE_UNSUPPORTED_DRIVER = ''DATABASE_UNSUPPORTED_DRIVER''"
| "ErrorCode_value DATABASE_CLIENT_UNAVAILABLE = ''DATABASE_CLIENT_UNAVAILABLE''"
| "ErrorCode_value DATABASE_CLIENT_CREATION_FAILED = ''DATABASE_CLIENT_CREATION_FAILED''"

text \<open>The table \<^verbatim>\<open>ErrorCodeToHttpStatus\<close>, entry by entry.\<close>

fun ErrorCodeToHttpStatus :: "ErrorCode \<Rightarrow> int" where
  "ErrorCodeToHttpStatus INTERNAL_SERVER_ERROR = 500"
| "ErrorCodeToHttpStatus VALIDATION_ERROR = 400"
| "ErrorCodeToHttpStatus NOT_FOUND = 404"
| "ErrorCodeToHttpStatus UNAUTHORIZED = 401"
| "ErrorCodeToHttpStatus FORBIDDEN = 403"
| "ErrorCodeToHttpStatus BAD_REQUEST = 400"
| "ErrorCodeToHttpStatus USER_ALREADY_EXISTS = 409"
| "ErrorCodeToHttpStatus USER_NOT_FOUND = 404"
| "ErrorCodeToHttpStatus INVALID_CREDENTIALS = 401"
| "ErrorCodeToHttpStatus USER_NOT_VERIFIED = 401"
| "ErrorCodeToHttpStatus WEAK_PASSWORD = 400"
| "ErrorCodeToHttpStatus INVALID_TOKEN = 401"
| "ErrorCodeToHttpStatus TOKEN_EXPIRED = 401"
| "ErrorCodeToHttpStatus ADMIN_NOT_FOUND = 404"
| "ErrorCodeToHttpStatus ADMIN_ALREADY_EXISTS = 409"
| "ErrorCodeToHttpStatus INSUFFICIENT_PERMISSIONS = 403"
| "ErrorCodeToHttpStatus EMAIL_SEND_FAILED = 500"
| "ErrorCodeToHttpStatus INVALID_EMAIL_FORMAT = 400"
| "ErrorCodeToHttpStatus DATABASE_NOT_INITIALIZED = 500"
| "ErrorCodeToHttpStatus DATABASE_CONNECTION_NOT_CONFIGURED = 500"
| "ErrorCodeToHttpStatus DATABASE_UNSUPPORTED_DRIVER = 500"
| "ErrorCodeToHttpStatus DATABASE_CLIENT_UNAVAILABLE = 500"
| "ErrorCodeToHttpStatus DATABASE_CLIENT_CREATION_FAILED = 500"

text \<open>
  \<^verbatim>\<open>AbstractFrourioFrameworkError\<close>: the fields the constructor sets. \<open>timestamp\<close> is
  the \<^verbatim>\<open>Date\<close> of construction in milliseconds; \<open>class_name\<close> is the field
  \<^verbatim>\<open>name\<close>, the name of the concrete subclass. An optional field that was not given is \<open>None\<close>.
\<close>

record FrourioFrameworkError =
  class_name :: string
  message :: string
  code :: ErrorCode
  httpStatusCode :: int
  details :: "(string \<times> jsval) list option"
  timestamp :: int
  instance_uri :: "string option"
  typeUri :: "string option"

text \<open>The constructor arguments, and the constructor run at the time \<open>now\<close> by the subclass \<open>cls\<close>.\<close>

record error_args =
  arg_message :: string
  arg_code :: ErrorCode
  arg_details :: "(string \<times> jsval) list option"
  arg_instance :: "string option"
  arg_typeUri :: "string option"

definition new_FrourioFrameworkError :: "string \<Rightarrow> int \<Rightarrow> error_args \<Rightarrow> FrourioFrameworkError" where
  "new_FrourioFrameworkError cls now args =
     \<lparr> class_name = cls,
       message = arg_message args,
       code = arg_code args,
       httpStatusCode = ErrorCodeToHttpStatus (arg_code args),
       details = arg_details args,
       timestamp = now,
       instance_uri = arg_instance args,
       typeUri = arg_typeUri args \<rparr>"

definition isClientError :: "FrourioFrameworkError \<Rightarrow> bool" where
  "isClientError e = (httpStatusCode e \<ge> 400 \<and> httpStatusCode e < 500)"

definition isServerError :: "FrourioFrameworkError \<Rightarrow> bool" where
  "isServerError e = (httpStatusCode e \<ge> 500)"

section \<open>Library functions of the host\<close>

text \<open>
  Number to string conversion of a non-negative integer and of an integer, as a template
  literal and \<^verbatim>\<open>String(n)\<close> print it.
\<close>

fun dec :: "nat \<Rightarrow> string" where
  "dec n = (if n < 10 then [''0123456789'' ! n] else dec (n div 10) @ [''0123456789'' ! (n mod 10)])"

declare dec.simps [simp del]

definition num_to_string :: "int \<Rightarrow> string" where
  "num_to_string i = (if i < 0 then CHR ''-'' # dec (nat (- i)) else dec (nat i))"

definition pad :: "nat \<Rightarrow> string \<Rightarrow> string" where
  "pad k s = replicate (k - length s) CHR ''0'' @ s"

text \<open>
  \<^verbatim>\<open>Date.prototype.toISOString\<close> on a time in milliseconds since the epoch, for the
  years 0 to 9999 (the format \<^verbatim>\<open>YYYY-MM-DDTHH:mm:ss.sssZ\<close>): the day number is turned
  into a civil date by counting 400-year eras from 1 March of the year 0.
\<close>

definition toISOString :: "int \<Rightarrow> string" where
  "toISOString ms =
     (let days = ms div 86400000;
          t = ms mod 86400000;
          z = days + 719468;
          era = z div 146097;
          doe = z mod 146097;
          yoe = (doe - doe div 1460 + doe div 36524 - doe div 146096) div 365;
          doy = doe - (365 * yoe + yoe div 4 - yoe div 100);
          mp = (5 * doy + 2) div 153;
          d = doy - (153 * mp + 2) div 5 + 1;
          m = (if mp < 10 then mp + 3 else mp - 9);
          y = yoe + era * 400 + (if m \<le> 2 then 1 else 0)
      in pad 4 (dec (nat y)) @ ''-'' @ pad 2 (dec (nat m)) @ ''-'' @ pad 2 (dec (nat d)) @ ''T''
         @ pad 2 (dec (nat (t div 3600000))) @ '':''
         @ pad 2 (dec (nat (t mod 3600000 div 60000))) @ '':''
         @ pad 2 (dec (nat (t mod 60000 div 1000))) @ ''.''
         @ pad 3 (dec (nat (t mod 1000))) @ ''Z'')"


text \<open>
  \<^verbatim>\<open>target[key] = value\<close> on the own properties of an object literal: the assignment
  replaces the value of an existing property in place or appends a new one. For the key
  \<^verbatim>\<open>__proto__\<close> it runs the setter that the object inherits from
  \<^verbatim>\<open>Object.prototype\<close> instead: no property is added, and the value, if it is an
  object or \<^verbatim>\<open>null\<close>, becomes the prototype. The list holds the own properties only
  (what is serialised); what a prototype set in this way does to later assignments is not
  modelled, and the theorems below leave out payloads with an own key \<^verbatim>\<open>__proto__\<close>
  where that could matter.
\<close>

definition set_member :: "string \<Rightarrow> jsval \<Rightarrow> (string \<times> jsval) list \<Rightarrow> (string \<times> jsval) list" where
  "set_member k v target = (if k = ''__proto__'' then target else AList.update k v target)"

text \<open>\<^verbatim>\<open>Object.entries(src).forEach(([key, value]) => { target[key] = value; })\<close>.\<close>

definition assign_entries :: "(string \<times> jsval) list \<Rightarrow> (string \<times> jsval) list \<Rightarrow> (string \<times> jsval) list" where
  "assign_entries src target = fold (\<lambda>(k, v). set_member k v) src target"

section \<open>Problem Details\<close>

text \<open>
  Modelled from the spec: the constant \<^verbatim>\<open>DEFAULT_PROBLEM_TYPE\<close>, whose declaring file
  (\<^verbatim>\<open>ProblemDetails.types\<close>, \<^verbatim>\<open>type/nfc9457\<close>) is not among the sources. The
  repository's documentation shows \<^verbatim>\<open>about:blank\<close> as the type of a response without
  a type URI, which is also the default of RFC 9457. No theorem depends on the value.
\<close>

definition DEFAULT_PROBLEM_TYPE :: string where
  "DEFAULT_PROBLEM_TYPE = ''about:blank''"

text \<open>
  \<^verbatim>\<open>AbstractFrourioFrameworkError.toProblemDetails\<close>. A Problem Details object is a
  JavaScript object with the four standard members and any further member.
\<close>

definition toProblemDetails :: "FrourioFrameworkError \<Rightarrow> (string \<times> jsval) list" where
  "toProblemDetails e =
     (let problemDetails =
            [(''type'', JStr (or_else (typeUri e) DEFAULT_PROBLEM_TYPE)),
             (''title'', JStr (ErrorCode_value (code e))),
             (''status'', JNum (httpStatusCode e)),
             (''detail'', JStr (message e))];
          problemDetails =
            (case instance_uri e of
               None \<Rightarrow> problemDetails
             | Some i \<Rightarrow> if i \<noteq> [] then AList.update ''instance'' (JStr i) problemDetails
                         else problemDetails);
          problemDetails = AList.update ''code'' (JStr (ErrorCode_value (code e))) problemDetails;
          problemDetails = AList.update ''timestamp'' (JStr (toISOString (timestamp e))) problemDetails
      in case details e of
           None \<Rightarrow> problemDetails
         | Some ds \<Rightarrow> assign_entries ds problemDetails)"














text \<open>
  Whether a details payload (or an extensions object) has an own key, and the value that
  copying the payload leaves under a name: that of the entry of this name, and none for
  \<^verbatim>\<open>__proto__\<close>, whose entry adds no member. The payload is a JavaScript object, so its
  keys are distinct; should a list repeat a key, the last entry is the one that is assigned
  last.
\<close>

definition has_key :: "(string \<times> jsval) list option \<Rightarrow> string \<Rightarrow> bool" where
  "has_key ds k = (case ds of None \<Rightarrow> False | Some xs \<Rightarrow> k \<in> fst ` set xs)"

definition last_value :: "(string \<times> jsval) list option \<Rightarrow> string \<Rightarrow> jsval option" where
  "last_value ds k =
     (case ds of
        None \<Rightarrow> None
      | Some xs \<Rightarrow> map_of (rev (filter (\<lambda>(a, b). a \<noteq> ''__proto__'') xs)) k)"

text \<open>
  The members that \<^verbatim>\<open>toProblemDetails\<close> writes before it copies the details: the
  four standard members, \<^verbatim>\<open>code\<close>, \<^verbatim>\<open>timestamp\<close>, and \<^verbatim>\<open>instance\<close> when the
  error has a non-empty one.
\<close>

definition standard_members :: "FrourioFrameworkError \<Rightarrow> string \<Rightarrow> jsval option" where
  "standard_members e =
     [''type'' \<mapsto> JStr (or_else (typeUri e) DEFAULT_PROBLEM_TYPE),
      ''title'' \<mapsto> JStr (ErrorCode_value (code e)),
      ''status'' \<mapsto> JNum (httpStatusCode e),
      ''detail'' \<mapsto> JStr (message e),
      ''code'' \<mapsto> JStr (ErrorCode_value (code e)),
      ''timestamp'' \<mapsto> JStr (toISOString (timestamp e))]
     ++ (case instance_uri e of None \<Rightarrow> Map.empty
         | Some i \<Rightarrow> if i \<noteq> [] then [''instance'' \<mapsto> JStr i] else Map.empty)"

definition reserved_members :: "string set" where
  "reserved_members = {''type'', ''title'', ''status'', ''detail'', ''instance'', ''code'', ''timestamp''}"



section \<open>The configuration helpers\<close>

text \<open>
  \<^verbatim>\<open>key.split('.')\<close>: the segments between the dots. The result is never empty: the
  empty key has the one segment \<^verbatim>\<open>''\<close>.
\<close>

fun split_dots :: "string \<Rightarrow> string list" where
  "split_dots [] = [] # []"
| "split_dots (c # cs) =
     (if c = CHR ''.'' then [] # split_dots cs
      else (case split_dots cs of
              [] \<Rightarrow> [c] # []
            | seg # segs \<Rightarrow> (c # seg) # segs))"

text \<open>
  \<^verbatim>\<open>app.make('config')\<close> is a call into the container: it either returns the
  configuration object or throws (the database service provider catches that). The two
  helpers take its outcome as their first argument. The loop over the segments, with its
  early \<^verbatim>\<open>return\<close>, is a recursion over the list of segments.
\<close>

datatype container_error = NotBound string

fun config_loop :: "jsval \<Rightarrow> string list \<Rightarrow> jsval \<Rightarrow> jsval" where
  "config_loop v [] defaultValue = v"
| "config_loop v (k # keys) defaultValue =
     (if truthy v \<and> typeof_object v \<and> js_in k v
      then config_loop (js_get v k) keys defaultValue
      else defaultValue)"

definition config :: "container_error + jsval \<Rightarrow> string \<Rightarrow> jsval \<Rightarrow> container_error + jsval" where
  "config made key defaultValue =
     (case made of
        Inl err \<Rightarrow> Inl err
      | Inr configs \<Rightarrow> Inr (config_loop configs (split_dots key) defaultValue))"

fun hasConfig_loop :: "jsval \<Rightarrow> string list \<Rightarrow> bool" where
  "hasConfig_loop v [] = True"
| "hasConfig_loop v (k # keys) =
     (if truthy v \<and> typeof_object v \<and> js_in k v
      then hasConfig_loop (js_get v k) keys
      else False)"

definition hasConfig :: "container_error + jsval \<Rightarrow> string \<Rightarrow> bool" where
  "hasConfig made key =
     (case made of
        Inl err \<Rightarrow> False
      | Inr configs \<Rightarrow> hasConfig_loop configs (split_dots key))"




section \<open>Typed configuration modules\<close>

text \<open>
  A Zod schema is an object of the validation library: its value as a JavaScript object,
  and its \<^verbatim>\<open>parse\<close> method, which returns the parsed value or throws a
  \<^verbatim>\<open>ZodError\<close> (\<open>Inl\<close>). A loader returns the raw value or throws.
\<close>

record zod_schema =
  schema_object :: jsval
  parse :: "jsval \<Rightarrow> jsval + jsval"

datatype config_failure = Thrown jsval | TypeError string

text \<open>
  Whether an inherited data property of the name \<open>k\<close> is read-only: the first object
  along the chain that has \<open>k\<close> is frozen. An assignment to the name then throws in
  strict code, as \<^verbatim>\<open>Object.assign\<close> always does.
\<close>

fun holder_frozen :: "jsval \<Rightarrow> string \<Rightarrow> bool" where
  "holder_frozen (JObject i ps p) k =
     (if k \<in> fst ` set ps then i = Frozen else holder_frozen p k)"
| "holder_frozen v k = False"

text \<open>
  The assignment \<^verbatim>\<open>target.schema = v\<close> that \<^verbatim>\<open>Object.assign(target, { schema: v })\<close>
  makes on an object: it replaces an own member unless the object is frozen, and adds the
  member otherwise, unless the object is closed to new properties or inherits a read-only
  member of that name; the failures are \<^verbatim>\<open>TypeError\<close>s.
\<close>

fun put_schema :: "jsval \<Rightarrow> jsval \<Rightarrow> config_failure + jsval" where
  "put_schema (JObj ps) v = Inr (JObj (AList.update ''schema'' v ps))"
| "put_schema (JObject i ps p) v =
     (if ''schema'' \<in> fst ` set ps
      then (if i = Frozen
            then Inl (TypeError ''Cannot assign to read only property schema'')
            else Inr (JObject i (AList.update ''schema'' v ps) p))
      else if holder_frozen p ''schema''
      then Inl (TypeError ''Cannot assign to read only property schema'')
      else if i = Extensible
      then Inr (JObject i (ps @ [(''schema'', v)]) p)
      else Inl (TypeError ''Cannot add property schema, object is not extensible''))"
| "put_schema x v = Inl (TypeError ''not an object'')"

text \<open>
  What \<^verbatim>\<open>defineConfig\<close> returns: the parsed object with its member \<^verbatim>\<open>schema\<close>,
  or, when the parsed value is a primitive or a function, the object that
  \<^verbatim>\<open>Object.assign\<close> makes of it (the wrapper of the primitive, the function itself)
  with the own member \<^verbatim>\<open>schema\<close>: \<open>Wrapped p v\<close>.
\<close>

datatype defined_config = Defined jsval | Wrapped jsval jsval

text \<open>\<^verbatim>\<open>Object.assign(target, { schema: v })\<close>: it throws on \<^verbatim>\<open>undefined\<close> and \<^verbatim>\<open>null\<close>.\<close>

fun object_assign :: "jsval \<Rightarrow> jsval \<Rightarrow> config_failure + defined_config" where
  "object_assign JUndefined v = Inl (TypeError ''Cannot convert undefined or null to object'')"
| "object_assign JNull v = Inl (TypeError ''Cannot convert undefined or null to object'')"
| "object_assign (JObj ps) v =
     (case put_schema (JObj ps) v of Inl e \<Rightarrow> Inl e | Inr r \<Rightarrow> Inr (Defined r))"
| "object_assign (JObject i ps p) v =
     (case put_schema (JObject i ps p) v of Inl e \<Rightarrow> Inl e | Inr r \<Rightarrow> Inr (Defined r))"
| "object_assign x v = Inr (Wrapped x v)"

definition defineConfig :: "zod_schema \<Rightarrow> (unit \<Rightarrow> jsval + jsval) \<Rightarrow> config_failure + defined_config" where
  "defineConfig schema load =
     (case load () of
        Inl e \<Rightarrow> Inl (Thrown e)
      | Inr raw \<Rightarrow>
          (case parse schema raw of
             Inl e \<Rightarrow> Inl (Thrown e)
           | Inr parsed \<Rightarrow> object_assign parsed (schema_object schema)))"

text \<open>
  A configuration module with a member named \<^verbatim>\<open>schema\<close>, such as a database
  configuration that names its PostgreSQL schema:
  \<^verbatim>\<open>defineConfig({ schema: z.object({ schema: z.literal('public') }), load: () => ({ schema: 'public' }) })\<close>.
\<close>

definition literal_schema :: zod_schema where
  "literal_schema =
     \<lparr> schema_object = JObj [(''typeName'', JStr ''ZodObject'')],
       parse = (\<lambda>raw. if raw = JObj [(''schema'', JStr ''public'')] then Inr raw
                       else Inl (JObj [(''name'', JStr ''ZodError'')])) \<rparr>"

definition literal_load :: "unit \<Rightarrow> jsval + jsval" where
  "literal_load = (\<lambda>_. Inr (JObj [(''schema'', JStr ''public'')]))"

section \<open>The database manager\<close>

text \<open>\<^verbatim>\<open>ConnectionConfig\<close> and \<^verbatim>\<open>DatabaseConfig\<close> of \<^verbatim>\<open>DatabaseManager.interface.ts\<close>.\<close>

record connection_details =
  host :: string
  port :: int
  user :: string
  password :: string
  database :: string

record pool_settings =
  pool_min :: "int option"
  pool_max :: "int option"
  idleTimeoutMillis :: "int option"

record ConnectionConfig =
  driver :: string
  url :: "string option"
  connection :: "connection_details option"
  pool :: "pool_settings option"

record DatabaseConfig =
  default_connection :: string
  config_connections :: "(string \<times> ConnectionConfig) list"

text \<open>
  The errors of \<^verbatim>\<open>DatabaseErrors.ts\<close> that the manager throws, a value that a driver
  threw and the manager lets through (\<open>DriverThrew\<close>), and the plain \<^verbatim>\<open>Error\<close> of the
  facade with its message.
\<close>

datatype db_error =
    DatabaseNotInitializedError
  | DatabaseConnectionNotConfiguredError string
  | UnsupportedDatabaseDriverError string
  | DatabaseClientCreationError string jsval
  | DriverThrew jsval
  | PlainError string

text \<open>
  What the manager does to the world outside it: the calls of driver methods (with the
  name under which the driver was looked up, and the connection name or the client) and
  the lines written with \<^verbatim>\<open>console.error\<close>. The trace of these events is threaded
  through every operation next to the manager.
\<close>

datatype event =
    CreateClient string string
  | RunTransaction string jsval
  | Disconnect string jsval
  | ConsoleError string db_error

text \<open>
  \<^verbatim>\<open>DatabaseDriver\<close>: an object with three methods. A method sees the trace so far, so
  a driver may answer differently from call to call (a fresh client at each creation, a
  failure that goes away). \<open>Inl\<close> is a thrown value or a rejected promise; the
  \<^verbatim>\<open>Promise<void>\<close> of \<^verbatim>\<open>disconnect\<close> rejects with \<open>Some e\<close> or resolves
  (\<open>None\<close>). A transaction callback maps the transactional client to its result.
\<close>

type_synonym callback = "jsval \<Rightarrow> jsval + jsval"

record DatabaseDriver =
  drv_createClient :: "event list \<Rightarrow> ConnectionConfig \<Rightarrow> string \<Rightarrow> jsval + jsval"
  drv_transaction :: "event list \<Rightarrow> jsval \<Rightarrow> callback \<Rightarrow> jsval + jsval"
  drv_disconnect :: "event list \<Rightarrow> jsval \<Rightarrow> jsval option"

text \<open>
  The ORM libraries behind the two built-in drivers: the client factories
  \<^verbatim>\<open>getPrismaClient()\<close> and \<^verbatim>\<open>getDrizzleClient(url)\<close>, and the methods of the
  clients that the drivers call.
\<close>

record orm_runtime =
  getPrismaClient :: "event list \<Rightarrow> jsval + jsval"
  getDrizzleClient :: "event list \<Rightarrow> string \<Rightarrow> jsval + jsval"
  prisma_transaction :: "event list \<Rightarrow> jsval \<Rightarrow> callback \<Rightarrow> jsval + jsval"
  prisma_disconnect :: "event list \<Rightarrow> jsval \<Rightarrow> jsval option"
  drizzle_transaction :: "event list \<Rightarrow> jsval \<Rightarrow> callback \<Rightarrow> jsval + jsval"
  drizzle_end :: "event list \<Rightarrow> jsval \<Rightarrow> jsval option"

definition PrismaDriver :: "orm_runtime \<Rightarrow> DatabaseDriver" where
  "PrismaDriver orm =
     \<lparr> drv_createClient = (\<lambda>tr cfg name. getPrismaClient orm tr),
       drv_transaction = (\<lambda>tr cl cb. prisma_transaction orm tr cl cb),
       drv_disconnect = (\<lambda>tr cl.
          if truthy (js_get cl ''$disconnect'') then prisma_disconnect orm tr cl else None) \<rparr>"

definition buildUrlFromConnection :: "ConnectionConfig \<Rightarrow> string option" where
  "buildUrlFromConnection cfg =
     (case connection cfg of
        None \<Rightarrow> None
      | Some cd \<Rightarrow>
          (let auth = (if password cd \<noteq> [] then user cd @ '':'' @ password cd else user cd)
           in Some (''postgresql://'' @ auth @ ''@'' @ host cd @ '':'' @ num_to_string (port cd)
                    @ ''/'' @ database cd)))"

definition DrizzleDriver :: "orm_runtime \<Rightarrow> DatabaseDriver" where
  "DrizzleDriver orm =
     \<lparr> drv_createClient = (\<lambda>tr cfg name.
          (case (case url cfg of Some u \<Rightarrow> Some u | None \<Rightarrow> buildUrlFromConnection cfg) of
             None \<Rightarrow> Inl (JObj [(''name'', JStr ''Error''),
                                 (''message'', JStr ''Drizzle connection URL is required in config'')])
           | Some u \<Rightarrow>
               if u = [] then Inl (JObj [(''name'', JStr ''Error''),
                                 (''message'', JStr ''Drizzle connection URL is required in config'')])
               else getDrizzleClient orm tr u)),
       drv_transaction = (\<lambda>tr cl cb. drizzle_transaction orm tr cl cb),
       drv_disconnect = (\<lambda>tr cl.
          if truthy (js_get cl ''end'') then drizzle_end orm tr cl else None) \<rparr>"

text \<open>The private fields of \<^verbatim>\<open>class DatabaseManager\<close>.\<close>

record DatabaseManager =
  defaultConnection :: string
  connections :: "string \<rightharpoonup> ConnectionConfig"
  clients :: "string \<rightharpoonup> jsval"
  connectedClients :: "string set"
  drivers :: "string \<rightharpoonup> DatabaseDriver"

definition registerDriver :: "DatabaseManager \<Rightarrow> string \<Rightarrow> DatabaseDriver \<Rightarrow> DatabaseManager" where
  "registerDriver m name d = m\<lparr> drivers := (drivers m)(name \<mapsto> d) \<rparr>"

text \<open>The constructor: the two built-in drivers, then the connections in the order of the entries.\<close>

definition new_DatabaseManager :: "orm_runtime \<Rightarrow> DatabaseConfig \<Rightarrow> DatabaseManager" where
  "new_DatabaseManager orm cfg =
     (let m = \<lparr> defaultConnection = [], connections = Map.empty, clients = Map.empty,
                connectedClients = {}, drivers = Map.empty \<rparr>;
          m = registerDriver m ''prisma'' (PrismaDriver orm);
          m = registerDriver m ''drizzle'' (DrizzleDriver orm);
          m = m\<lparr> defaultConnection := default_connection cfg \<rparr>
      in fold (\<lambda>(name, connConfig) m. m\<lparr> connections := (connections m)(name \<mapsto> connConfig) \<rparr>)
           (config_connections cfg) m)"

definition getDefaultConnection :: "DatabaseManager \<Rightarrow> string" where
  "getDefaultConnection m = defaultConnection m"

definition setDefaultConnection :: "DatabaseManager \<Rightarrow> string \<Rightarrow> db_error + DatabaseManager" where
  "setDefaultConnection m name =
     (if name \<notin> dom (connections m) then Inl (DatabaseConnectionNotConfiguredError name)
      else Inr (m\<lparr> defaultConnection := name \<rparr>))"

text \<open>\<^verbatim>\<open>getDriver\<close>: get driver by name or throw.\<close>

definition getDriver :: "DatabaseManager \<Rightarrow> string \<Rightarrow> db_error + DatabaseDriver" where
  "getDriver m name =
     (case drivers m name of
        None \<Rightarrow> Inl (UnsupportedDatabaseDriverError name)
      | Some d \<Rightarrow> Inr d)"

text \<open>
  \<^verbatim>\<open>createClient\<close>: the driver is resolved outside the \<^verbatim>\<open>try\<close>, so its error is
  thrown as it is; what the driver's \<^verbatim>\<open>createClient\<close> throws is wrapped.
\<close>

definition createClient ::
  "DatabaseManager \<Rightarrow> event list \<Rightarrow> string \<Rightarrow> ConnectionConfig \<Rightarrow> (db_error + jsval) \<times> event list" where
  "createClient m tr name cfg =
     (case getDriver m (driver cfg) of
        Inl e \<Rightarrow> (Inl e, tr)
      | Inr d \<Rightarrow>
          (case drv_createClient d tr cfg name of
             Inl cause \<Rightarrow> (Inl (DatabaseClientCreationError (driver cfg) cause),
                           tr @ [CreateClient (driver cfg) name])
           | Inr c \<Rightarrow> (Inr c, tr @ [CreateClient (driver cfg) name])))"

definition getOrCreateClient ::
  "DatabaseManager \<Rightarrow> event list \<Rightarrow> string \<Rightarrow> (db_error + jsval) \<times> DatabaseManager \<times> event list" where
  "getOrCreateClient m tr name =
     (case clients m name of
        Some c \<Rightarrow> (Inr c, m, tr)
      | None \<Rightarrow>
          (case connections m name of
             None \<Rightarrow> (Inl (DatabaseConnectionNotConfiguredError name), m, tr)
           | Some cfg \<Rightarrow>
               (case createClient m tr name cfg of
                  (Inl e, tr') \<Rightarrow> (Inl e, m, tr')
                | (Inr c, tr') \<Rightarrow>
                    (Inr c,
                     m\<lparr> clients := (clients m)(name \<mapsto> c),
                        connectedClients := insert name (connectedClients m) \<rparr>,
                     tr'))))"

text \<open>
  The three accessors. The argument is optional; \<^verbatim>\<open>connection || this.defaultConnection\<close>
  takes the default for an omitted and for an empty name.
\<close>

definition prisma ::
  "DatabaseManager \<Rightarrow> event list \<Rightarrow> string option \<Rightarrow> (db_error + jsval) \<times> DatabaseManager \<times> event list" where
  "prisma m tr conn =
     (let name = or_else conn (defaultConnection m)
      in case connections m name of
           None \<Rightarrow> (Inr JNull, m, tr)
         | Some cfg \<Rightarrow>
             if driver cfg \<noteq> ''prisma'' then (Inr JNull, m, tr)
             else getOrCreateClient m tr name)"

definition drizzle ::
  "DatabaseManager \<Rightarrow> event list \<Rightarrow> string option \<Rightarrow> (db_error + jsval) \<times> DatabaseManager \<times> event list" where
  "drizzle m tr conn =
     (let name = or_else conn (defaultConnection m)
      in case connections m name of
           None \<Rightarrow> (Inr JNull, m, tr)
         | Some cfg \<Rightarrow>
             if driver cfg \<noteq> ''drizzle'' then (Inr JNull, m, tr)
             else getOrCreateClient m tr name)"

definition client ::
  "DatabaseManager \<Rightarrow> event list \<Rightarrow> string option \<Rightarrow> (db_error + jsval) \<times> DatabaseManager \<times> event list" where
  "client m tr conn =
     (let name = or_else conn (defaultConnection m)
      in getOrCreateClient m tr name)"

definition transaction ::
  "DatabaseManager \<Rightarrow> event list \<Rightarrow> callback \<Rightarrow> string option
     \<Rightarrow> (db_error + jsval) \<times> DatabaseManager \<times> event list" where
  "transaction m tr cb conn =
     (let name = or_else conn (defaultConnection m)
      in case connections m name of
           None \<Rightarrow> (Inl (DatabaseConnectionNotConfiguredError name), m, tr)
         | Some cfg \<Rightarrow>
             (case getOrCreateClient m tr name of
                (Inl e, m', tr') \<Rightarrow> (Inl e, m', tr')
              | (Inr c, m', tr') \<Rightarrow>
                  (case getDriver m' (driver cfg) of
                     Inl e \<Rightarrow> (Inl e, m', tr')
                   | Inr d \<Rightarrow>
                       (case drv_transaction d tr' c cb of
                          Inl e \<Rightarrow> (Inl (DriverThrew e), m', tr' @ [RunTransaction (driver cfg) c])
                        | Inr r \<Rightarrow> (Inr r, m', tr' @ [RunTransaction (driver cfg) c])))))"

text \<open>
  \<^verbatim>\<open>disconnect\<close>: the two checks throw; everything in the \<^verbatim>\<open>try\<close> block that
  throws, the lookup of the driver included, ends in the \<^verbatim>\<open>catch\<close>, which writes a
  line and returns.
\<close>

definition disconnect ::
  "DatabaseManager \<Rightarrow> event list \<Rightarrow> string option \<Rightarrow> (db_error + unit) \<times> DatabaseManager \<times> event list" where
  "disconnect m tr conn =
     (let name = or_else conn (defaultConnection m)
      in case clients m name of
           None \<Rightarrow> (Inl DatabaseNotInitializedError, m, tr)
         | Some c \<Rightarrow>
             if \<not> truthy c then (Inl DatabaseNotInitializedError, m, tr)
             else
               (case connections m name of
                  None \<Rightarrow> (Inl (DatabaseConnectionNotConfiguredError name), m, tr)
                | Some cfg \<Rightarrow>
                    (case getDriver m (driver cfg) of
                       Inl e \<Rightarrow> (Inr (), m, tr @ [ConsoleError name e])
                     | Inr d \<Rightarrow>
                         (case drv_disconnect d tr c of
                            Some e \<Rightarrow>
                              (Inr (), m,
                               tr @ [Disconnect (driver cfg) c, ConsoleError name (DriverThrew e)])
                          | None \<Rightarrow>
                              (Inr (),
                               m\<lparr> connectedClients := connectedClients m - {name} \<rparr>,
                               tr @ [Disconnect (driver cfg) c])))))"

definition isConnected :: "DatabaseManager \<Rightarrow> string option \<Rightarrow> bool" where
  "isConnected m conn = (or_else conn (defaultConnection m) \<in> connectedClients m)"

definition registerClient ::
  "DatabaseManager \<Rightarrow> string \<Rightarrow> jsval \<Rightarrow> string \<Rightarrow> db_error + DatabaseManager" where
  "registerClient m name c drv =
     (if drv \<notin> dom (drivers m) then Inl (UnsupportedDatabaseDriverError drv)
      else Inr (m\<lparr> clients := (clients m)(name \<mapsto> c),
                   connections := (connections m)
                      (name \<mapsto> \<lparr> driver = drv, url = None, connection = None, pool = None \<rparr>),
                   connectedClients := insert name (connectedClients m) \<rparr>))"

text \<open>
  Calls of the accessors, one after the other: what a caller that only reads clients does
  to the manager and the trace, whatever each call returns or throws.
\<close>

datatype access = Client "string option" | Prisma "string option" | Drizzle "string option"

fun run_access ::
  "DatabaseManager \<Rightarrow> event list \<Rightarrow> access \<Rightarrow> (db_error + jsval) \<times> DatabaseManager \<times> event list" where
  "run_access m tr (Client conn) = client m tr conn"
| "run_access m tr (Prisma conn) = prisma m tr conn"
| "run_access m tr (Drizzle conn) = drizzle m tr conn"

fun run_accesses :: "DatabaseManager \<Rightarrow> event list \<Rightarrow> access list \<Rightarrow> DatabaseManager \<times> event list" where
  "run_accesses m tr [] = (m, tr)"
| "run_accesses m tr (a # as) =
     (case run_access m tr a of (r, m', tr') \<Rightarrow> run_accesses m' tr' as)"

text \<open>How often the trace records a creation of a client for a connection name.\<close>

fun is_creation_for :: "string \<Rightarrow> event \<Rightarrow> bool" where
  "is_creation_for name (CreateClient drv n) = (n = name)"
| "is_creation_for name e = False"

definition creations :: "string \<Rightarrow> event list \<Rightarrow> nat" where
  "creations name tr = length (filter (is_creation_for name) tr)"

text \<open>
  An ORM runtime for examples: each factory call makes a client that carries the length
  of the trace at its creation, so that two creations never make the same client; the
  client methods succeed.
\<close>

definition example_orm :: orm_runtime where
  "example_orm =
     \<lparr> getPrismaClient = (\<lambda>tr. Inr (JObj [(''orm'', JStr ''prisma''), (''created'', JNum (int (length tr))),
                                           (''$disconnect'', JBool True)])),
       getDrizzleClient = (\<lambda>tr u. Inr (JObj [(''orm'', JStr ''drizzle''), (''url'', JStr u),
                                              (''created'', JNum (int (length tr)))])),
       prisma_transaction = (\<lambda>tr c cb. cb c),
       prisma_disconnect = (\<lambda>tr c. None),
       drizzle_transaction = (\<lambda>tr c cb. cb c),
       drizzle_end = (\<lambda>tr c. None) \<rparr>"

text \<open>
  A configuration with a Prisma connection and a Drizzle connection that has neither a
  URL nor connection details (both are optional in \<^verbatim>\<open>ConnectionConfig\<close>).
\<close>

definition example_config :: DatabaseConfig where
  "example_config =
     \<lparr> default_connection = ''default'',
       config_connections =
         [(''default'', \<lparr> driver = ''prisma'', url = Some ''postgresql://localhost/app'',
                          connection = None, pool = None \<rparr>),
          (''analytics'', \<lparr> driver = ''drizzle'', url = None, connection = None, pool = None \<rparr>)] \<rparr>"

text \<open>
  The facade \<^verbatim>\<open>DB\<close> holds a manager or \<^verbatim>\<open>null\<close>. Its \<^verbatim>\<open>prisma\<close> and
  \<^verbatim>\<open>drizzle\<close> turn the manager's falsy answer into a plain \<^verbatim>\<open>Error\<close>.
\<close>

definition DB_prisma ::
  "DatabaseManager option \<Rightarrow> event list \<Rightarrow> string option
     \<Rightarrow> (db_error + jsval) \<times> DatabaseManager option \<times> event list" where
  "DB_prisma manager tr conn =
     (case manager of
        None \<Rightarrow> (Inl DatabaseNotInitializedError, None, tr)
      | Some m \<Rightarrow>
          (case prisma m tr conn of
             (Inl e, m', tr') \<Rightarrow> (Inl e, Some m', tr')
           | (Inr c, m', tr') \<Rightarrow>
               if \<not> truthy c
               then (Inl (PlainError (''Prisma client not available for connection ''
                        @ [CHR 0x27] @ or_else conn (getDefaultConnection m') @ [CHR 0x27]
                        @ ''. Make sure the connection is configured with driver: ''
                        @ [CHR 0x27] @ ''prisma'' @ [CHR 0x27] @ ''.'')),
                     Some m', tr')
               else (Inr c, Some m', tr')))"

definition DB_drizzle ::
  "DatabaseManager option \<Rightarrow> event list \<Rightarrow> string option
     \<Rightarrow> (db_error + jsval) \<times> DatabaseManager option \<times> event list" where
  "DB_drizzle manager tr conn =
     (case manager of
        None \<Rightarrow> (Inl DatabaseNotInitializedError, None, tr)
      | Some m \<Rightarrow>
          (case drizzle m tr conn of
             (Inl e, m', tr') \<Rightarrow> (Inl e, Some m', tr')
           | (Inr c, m', tr') \<Rightarrow>
               if \<not> truthy c
               then (Inl (PlainError (''Drizzle client not available for connection ''
                        @ [CHR 0x27] @ or_else conn (getDefaultConnection m') @ [CHR 0x27]
                        @ ''. Make sure the connection is configured with driver: ''
                        @ [CHR 0x27] @ ''drizzle'' @ [CHR 0x27] @ ''.'')),
                     Some m', tr')
               else (Inr c, Some m', tr')))"

text \<open>
  A driver registered by the application whose \<^verbatim>\<open>disconnect\<close> rejects, and a manager
  in which a client was registered for it under the name \<^verbatim>\<open>cache\<close>.
\<close>

definition flaky_driver :: DatabaseDriver where
  "flaky_driver =
     \<lparr> drv_createClient = (\<lambda>tr cfg name. Inr (JObj [(''created'', JNum (int (length tr)))])),
       drv_transaction = (\<lambda>tr cl cb. cb cl),
       drv_disconnect = (\<lambda>tr cl. Some (JObj [(''name'', JStr ''Error''),
                                              (''message'', JStr ''socket hang up'')])) \<rparr>"

definition flaky_manager :: DatabaseManager where
  "flaky_manager =
     (case registerClient
             (registerDriver (new_DatabaseManager example_orm example_config) ''flaky'' flaky_driver)
             ''cache'' (JObj [(''id'', JNum 7)]) ''flaky'' of
        Inr m \<Rightarrow> m
      | Inl e \<Rightarrow> new_DatabaseManager example_orm example_config)"

section \<open>The service container\<close>







section \<open>Properties of the error taxonomy\<close>

text \<open>
  Claim C7. \<^verbatim>\<open>ErrorCodeToHttpStatus\<close> gives every member of \<^verbatim>\<open>ErrorCode\<close> a
  status of at least 400, so for every framework error, whatever its code and the other
  constructor arguments, exactly one of \<^verbatim>\<open>isClientError()\<close> and
  \<^verbatim>\<open>isServerError()\<close> is true.
\<close>

theorem status_at_least_400_and_client_xor_server:
  "400 \<le> ErrorCodeToHttpStatus c \<and>
   (isClientError (new_FrourioFrameworkError cls now args)
      \<noteq> isServerError (new_FrourioFrameworkError cls now args))"
proof
  show "400 \<le> ErrorCodeToHttpStatus c" by (cases c) simp_all
next
  have "400 \<le> ErrorCodeToHttpStatus (arg_code args)" by (cases "arg_code args") simp_all
  then show "isClientError (new_FrourioFrameworkError cls now args)
      \<noteq> isServerError (new_FrourioFrameworkError cls now args)"
    by (auto simp: isClientError_def isServerError_def new_FrourioFrameworkError_def)
qed

section \<open>Properties of the conversion to Problem Details\<close>

lemma map_of_assign_entries:
  "map_of (assign_entries src target)
     = map_of target ++ map_of (rev (filter (\<lambda>(a, b). a \<noteq> ''__proto__'') src))"
  unfolding assign_entries_def
proof (induction src arbitrary: target)
  case Nil
  show ?case by simp
next
  case (Cons p src)
  obtain k v where p: "p = (k, v)" by (cases p)
  have "map_of (fold (\<lambda>(k, v). set_member k v) src (set_member k v target))
        = map_of (set_member k v target)
          ++ map_of (rev (filter (\<lambda>(a, b). a \<noteq> ''__proto__'') src))"
    by (rule Cons.IH)
  also have "\<dots> = map_of target
          ++ map_of (rev (filter (\<lambda>(a, b). a \<noteq> ''__proto__'') (p # src)))"
    by (simp add: p set_member_def update_conv' map_add_upd_left fun_eq_iff map_add_def
          split: option.splits)
  finally show ?case by (simp add: p)
qed

lemma last_value_None: "\<not> has_key ds k \<Longrightarrow> last_value ds k = None"
  by (auto simp: has_key_def last_value_def map_of_eq_None_iff split: option.splits)

lemma last_value_Some:
  assumes "has_key ds k" and "k \<noteq> ''__proto__''"
  shows "\<exists>v. last_value ds k = Some v"
proof -
  from assms obtain xs where xs: "ds = Some xs"
      "k \<in> fst ` set (rev (filter (\<lambda>(a, b). a \<noteq> ''__proto__'') xs))"
    by (force simp: has_key_def split: option.splits)
  from xs(2) have "map_of (rev (filter (\<lambda>(a, b). a \<noteq> ''__proto__'') xs)) k \<noteq> None"
    by (simp only: map_of_eq_None_iff not_not)
  with xs(1) show ?thesis by (auto simp: last_value_def)
qed

text \<open>The details are copied last, so a details entry hides the member of the same name.\<close>

lemma map_of_toProblemDetails:
  "map_of (toProblemDetails e) k =
     (case last_value (details e) k of Some v \<Rightarrow> Some v | None \<Rightarrow> standard_members e k)"
proof -
  have base: "map_of (AList.update ''timestamp'' t (AList.update ''code'' c
            (case instance_uri e of
               None \<Rightarrow> [(''type'', ty), (''title'', ti), (''status'', st), (''detail'', de)]
             | Some i \<Rightarrow>
                 if i \<noteq> []
                 then AList.update ''instance'' (JStr i)
                        [(''type'', ty), (''title'', ti), (''status'', st), (''detail'', de)]
                 else [(''type'', ty), (''title'', ti), (''status'', st), (''detail'', de)])))
        = [''type'' \<mapsto> ty, ''title'' \<mapsto> ti, ''status'' \<mapsto> st, ''detail'' \<mapsto> de,
           ''code'' \<mapsto> c, ''timestamp'' \<mapsto> t]
          ++ (case instance_uri e of None \<Rightarrow> Map.empty
              | Some i \<Rightarrow> if i \<noteq> [] then [''instance'' \<mapsto> JStr i] else Map.empty)"
    for ty ti st de c t
    by (cases "instance_uri e") (auto simp: update_conv' fun_eq_iff map_add_def)
  show ?thesis
    unfolding toProblemDetails_def Let_def standard_members_def
    by (cases "details e")
       (simp_all only: option.case last_value_def map_of_assign_entries base map_add_def
          split: option.splits)
qed

lemma member_without_details_key:
  "\<not> has_key (details e) k \<Longrightarrow> map_of (toProblemDetails e) k = standard_members e k"
  by (simp add: map_of_toProblemDetails last_value_None)

lemma standard_members_new:
  fixes cls now args
  defines "e \<equiv> new_FrourioFrameworkError cls now args"
  shows "standard_members e ''type'' = Some (JStr (or_else (arg_typeUri args) DEFAULT_PROBLEM_TYPE))"
    and "standard_members e ''title'' = Some (JStr (ErrorCode_value (arg_code args)))"
    and "standard_members e ''status'' = Some (JNum (ErrorCodeToHttpStatus (arg_code args)))"
    and "standard_members e ''detail'' = Some (JStr (arg_message args))"
    and "standard_members e ''code'' = Some (JStr (ErrorCode_value (arg_code args)))"
    and "standard_members e ''timestamp'' = Some (JStr (toISOString now))"
    and "standard_members e ''instance'' =
           (case arg_instance args of None \<Rightarrow> None
            | Some i \<Rightarrow> if i = [] then None else Some (JStr i))"
    and "k \<notin> reserved_members \<Longrightarrow> standard_members e k = None"
  by (simp_all add: e_def standard_members_def new_FrourioFrameworkError_def map_add_def
        reserved_members_def split: option.splits)

text \<open>
  Claim C1 (amended). For every framework error, built by the constructor from any code
  and any details payload that has no own key \<^verbatim>\<open>__proto__\<close> (an entry of that name
  sets the prototype of the result), \<^verbatim>\<open>toProblemDetails()\<close> returns an object in which
  each of the members type, title, status, detail, code, timestamp and instance whose name
  is not a key of the details payload is as follows: type is the error's typeUri, or the default problem
  type when typeUri is absent or empty; title is the code; status is the status that
  \<^verbatim>\<open>ErrorCodeToHttpStatus\<close> assigns to the code; detail is the message; code is the
  code; timestamp is the ISO text of the construction time; instance is present exactly
  when a non-empty instance was given. Every details entry under any other key is a member
  of the object.
\<close>

theorem toProblemDetails_uniform_outside_details_keys:
  assumes "e = new_FrourioFrameworkError cls now args"
    and "\<not> has_key (details e) ''__proto__''"
  shows "(\<not> has_key (details e) ''type'' \<longrightarrow>
            map_of (toProblemDetails e) ''type''
              = Some (JStr (or_else (arg_typeUri args) DEFAULT_PROBLEM_TYPE)))
       \<and> (\<not> has_key (details e) ''title'' \<longrightarrow>
            map_of (toProblemDetails e) ''title'' = Some (JStr (ErrorCode_value (arg_code args))))
       \<and> (\<not> has_key (details e) ''status'' \<longrightarrow>
            map_of (toProblemDetails e) ''status''
              = Some (JNum (ErrorCodeToHttpStatus (arg_code args))))
       \<and> (\<not> has_key (details e) ''detail'' \<longrightarrow>
            map_of (toProblemDetails e) ''detail'' = Some (JStr (arg_message args)))
       \<and> (\<not> has_key (details e) ''code'' \<longrightarrow>
            map_of (toProblemDetails e) ''code'' = Some (JStr (ErrorCode_value (arg_code args))))
       \<and> (\<not> has_key (details e) ''timestamp'' \<longrightarrow>
            map_of (toProblemDetails e) ''timestamp'' = Some (JStr (toISOString now)))
       \<and> (\<not> has_key (details e) ''instance'' \<longrightarrow>
            map_of (toProblemDetails e) ''instance''
              = (case arg_instance args of None \<Rightarrow> None
                 | Some i \<Rightarrow> if i = [] then None else Some (JStr i)))
       \<and> (\<forall>k. has_key (details e) k \<and> k \<notin> reserved_members \<longrightarrow>
            map_of (toProblemDetails e) k = last_value (details e) k
            \<and> last_value (details e) k \<noteq> None)"
proof -
  have d: "\<And>k v. last_value (details e) k = Some v \<Longrightarrow> map_of (toProblemDetails e) k = Some v"
    by (simp add: map_of_toProblemDetails)
  have "\<forall>k. has_key (details e) k \<and> k \<notin> reserved_members \<longrightarrow>
            map_of (toProblemDetails e) k = last_value (details e) k
            \<and> last_value (details e) k \<noteq> None"
  proof (intro allI impI)
    fix k
    assume k: "has_key (details e) k \<and> k \<notin> reserved_members"
    with assms(2) have "k \<noteq> ''__proto__''" by auto
    with k obtain v where "last_value (details e) k = Some v"
      using last_value_Some by blast
    with d show "map_of (toProblemDetails e) k = last_value (details e) k
            \<and> last_value (details e) k \<noteq> None"
      by simp
  qed
  then show ?thesis
    unfolding assms(1)
    by (simp add: member_without_details_key standard_members_new)
qed

theorem toProblemDetails_uniform_witness:
  "map_of (toProblemDetails (new_FrourioFrameworkError ''UnsupportedDatabaseDriverError'' 0
      \<lparr> arg_message = ''Unsupported database driver: 'mysql' '',
        arg_code = DATABASE_UNSUPPORTED_DRIVER,
        arg_details = Some [(''driver'', JStr ''mysql'')],
        arg_instance = None,
        arg_typeUri = Some ''urn:frourio:errors:database/unsupported-driver'' \<rparr>)) ''status''
     = Some (JNum 500)
   \<and> map_of (toProblemDetails (new_FrourioFrameworkError ''UnsupportedDatabaseDriverError'' 0
      \<lparr> arg_message = ''Unsupported database driver: 'mysql' '',
        arg_code = DATABASE_UNSUPPORTED_DRIVER,
        arg_details = Some [(''driver'', JStr ''mysql'')],
        arg_instance = None,
        arg_typeUri = Some ''urn:frourio:errors:database/unsupported-driver'' \<rparr>)) ''type''
     = Some (JStr ''urn:frourio:errors:database/unsupported-driver'')
   \<and> map_of (toProblemDetails (new_FrourioFrameworkError ''UnsupportedDatabaseDriverError'' 0
      \<lparr> arg_message = ''Unsupported database driver: 'mysql' '',
        arg_code = DATABASE_UNSUPPORTED_DRIVER,
        arg_details = Some [(''driver'', JStr ''mysql'')],
        arg_instance = None,
        arg_typeUri = Some ''urn:frourio:errors:database/unsupported-driver'' \<rparr>)) ''driver''
     = Some (JStr ''mysql'')"
proof -
  have a: "\<not> has_key (details (new_FrourioFrameworkError ''UnsupportedDatabaseDriverError'' 0
      \<lparr> arg_message = ''Unsupported database driver: 'mysql' '',
        arg_code = DATABASE_UNSUPPORTED_DRIVER,
        arg_details = Some [(''driver'', JStr ''mysql'')],
        arg_instance = None,
        arg_typeUri = Some ''urn:frourio:errors:database/unsupported-driver'' \<rparr>)) ''__proto__''"
    by (simp add: new_FrourioFrameworkError_def has_key_def)
  from toProblemDetails_uniform_outside_details_keys [OF refl a]
  show ?thesis
    by (simp add: new_FrourioFrameworkError_def has_key_def last_value_def reserved_members_def)
qed

text \<open>
  The claim as stated fails when the details payload has a key named like a member: the
  entry is copied over the member. An error built like the documentation's
  \<^verbatim>\<open>UserAlreadyExistsError\<close>, whose caller passes \<^verbatim>\<open>{ type: 'unique' }\<close> as further
  details, gets \<^verbatim>\<open>unique\<close> as its problem type instead of its typeUri.
\<close>

theorem toProblemDetails_details_key_type_counterexample:
  "map_of (toProblemDetails (new_FrourioFrameworkError ''UserAlreadyExistsError'' 0
      \<lparr> arg_message = ''User with email a@b.c already exists'',
        arg_code = USER_ALREADY_EXISTS,
        arg_details = Some [(''email'', JStr ''a@b.c''), (''type'', JStr ''unique'')],
        arg_instance = None,
        arg_typeUri = Some ''https://example.com/errors/user-already-exists'' \<rparr>)) ''type''
     = Some (JStr ''unique'')
   \<and> map_of (toProblemDetails (new_FrourioFrameworkError ''UserAlreadyExistsError'' 0
      \<lparr> arg_message = ''User with email a@b.c already exists'',
        arg_code = USER_ALREADY_EXISTS,
        arg_details = Some [(''email'', JStr ''a@b.c''), (''type'', JStr ''unique'')],
        arg_instance = None,
        arg_typeUri = Some ''https://example.com/errors/user-already-exists'' \<rparr>)) ''type''
     \<noteq> Some (JStr ''https://example.com/errors/user-already-exists'')"
  by (simp add: map_of_toProblemDetails new_FrourioFrameworkError_def last_value_def)

section \<open>Properties of the error responses\<close>












section \<open>Properties of the configuration helpers\<close>

lemma split_dots_nonempty: "split_dots s \<noteq> []"
  by (induction s) (auto split: list.splits)



lemma split_dots_no_dot: "seg \<in> set (split_dots s) \<Longrightarrow> CHR ''.'' \<notin> set seg"
proof (induction s arbitrary: seg)
  case Nil
  then show ?case by simp
next
  case (Cons c cs)
  obtain seg' segs where segs: "split_dots cs = seg' # segs"
    using split_dots_nonempty [of cs] by (cases "split_dots cs") auto
  show ?case
  proof (cases "c = CHR ''.''")
    case True
    with Cons.prems have "seg = [] \<or> seg \<in> set (split_dots cs)" by simp
    then show ?thesis using Cons.IH by auto
  next
    case False
    with Cons.prems segs have "seg = c # seg' \<or> seg \<in> set segs" by simp
    moreover have "CHR ''.'' \<notin> set seg'" using Cons.IH [of seg'] segs by simp
    moreover have "seg \<in> set segs \<Longrightarrow> CHR ''.'' \<notin> set seg" using Cons.IH [of seg] segs by simp
    ultimately show ?thesis using False by auto
  qed
qed








text \<open>
  Inherited members count: on a configuration made of object literals, the key
  \<^verbatim>\<open>app.toString\<close> reaches the function that every such object inherits, not the
  default, and \<^verbatim>\<open>hasConfig('app.constructor')\<close> is true; an object without a prototype
  has no such members.
\<close>

lemma config_finds_inherited_members:
  "config (Inr (JObj [(''app'', JObj [(''name'', JStr ''Test App'')])])) ''app.toString'' (JStr ''d'')
     = Inr (JFun ''toString'')"
  "hasConfig (Inr (JObj [(''app'', JObj [(''name'', JStr ''Test App'')])])) ''app.constructor''"
  "config (Inr (JObject Extensible [(''app'', JObject Extensible [(''name'', JStr ''Test App'')] JNull)] JNull))
     ''app.toString'' (JStr ''d'') = Inr (JStr ''d'')"
  by (simp_all add: config_def hasConfig_def js_in_def js_get_def Object_prototype_members_def)

section \<open>Properties of the typed configuration modules\<close>

lemma update_fresh_appends:
  "k \<notin> fst ` set ps \<Longrightarrow> AList.update k v ps = ps @ [(k, v)]"
  by (induction ps) auto

text \<open>
  Claim C6 (amended). For every Zod schema and loader: when the raw value that
  \<^verbatim>\<open>load()\<close> returns does not validate, \<^verbatim>\<open>defineConfig\<close> throws the error of the
  schema's \<^verbatim>\<open>parse\<close>; when it validates to an extensible object that neither has nor
  inherits as read-only a member named \<^verbatim>\<open>schema\<close> (an object literal, or an extensible
  object with any prototype), \<^verbatim>\<open>defineConfig\<close> returns the parsed object with one
  member added, \<^verbatim>\<open>schema\<close>, which holds the schema itself; when it validates to an
  object that is frozen or otherwise closed to new members and has no member
  \<^verbatim>\<open>schema\<close>, or to \<^verbatim>\<open>undefined\<close> or \<^verbatim>\<open>null\<close>, \<^verbatim>\<open>defineConfig\<close> throws a
  \<^verbatim>\<open>TypeError\<close>. The result is thus the parsed value plus the schema, not the parsed
  value alone.
\<close>

theorem defineConfig_parses_and_attaches_schema:
  assumes "load () = Inr raw"
  shows "(\<forall>err. parse schema raw = Inl err \<longrightarrow> defineConfig schema load = Inl (Thrown err))
       \<and> (\<forall>ps. parse schema raw = Inr (JObj ps) \<and> ''schema'' \<notin> fst ` set ps \<longrightarrow>
            defineConfig schema load
              = Inr (Defined (JObj (ps @ [(''schema'', schema_object schema)]))))
       \<and> (\<forall>ps p. parse schema raw = Inr (JObject Extensible ps p) \<and> ''schema'' \<notin> fst ` set ps
                  \<and> \<not> holder_frozen p ''schema'' \<longrightarrow>
            defineConfig schema load
              = Inr (Defined (JObject Extensible (ps @ [(''schema'', schema_object schema)]) p)))
       \<and> (\<forall>i ps p. parse schema raw = Inr (JObject i ps p) \<and> i \<noteq> Extensible
                  \<and> ''schema'' \<notin> fst ` set ps \<longrightarrow>
            (\<exists>msg. defineConfig schema load = Inl (TypeError msg)))
       \<and> (parse schema raw = Inr JUndefined \<or> parse schema raw = Inr JNull \<longrightarrow>
            (\<exists>msg. defineConfig schema load = Inl (TypeError msg)))"
proof -
  have a: "\<forall>err. parse schema raw = Inl err \<longrightarrow> defineConfig schema load = Inl (Thrown err)"
    using assms by (simp add: defineConfig_def)
  have b: "\<forall>ps. parse schema raw = Inr (JObj ps) \<and> ''schema'' \<notin> fst ` set ps \<longrightarrow>
            defineConfig schema load
              = Inr (Defined (JObj (ps @ [(''schema'', schema_object schema)])))"
    using assms by (simp add: defineConfig_def update_fresh_appends)
  have c: "\<forall>ps p. parse schema raw = Inr (JObject Extensible ps p) \<and> ''schema'' \<notin> fst ` set ps
                  \<and> \<not> holder_frozen p ''schema'' \<longrightarrow>
            defineConfig schema load
              = Inr (Defined (JObject Extensible (ps @ [(''schema'', schema_object schema)]) p))"
    using assms by (simp add: defineConfig_def)
  have d: "\<forall>i ps p. parse schema raw = Inr (JObject i ps p) \<and> i \<noteq> Extensible
                  \<and> ''schema'' \<notin> fst ` set ps \<longrightarrow>
            (\<exists>msg. defineConfig schema load = Inl (TypeError msg))"
    using assms by (simp add: defineConfig_def)
  have e: "parse schema raw = Inr JUndefined \<or> parse schema raw = Inr JNull \<longrightarrow>
            (\<exists>msg. defineConfig schema load = Inl (TypeError msg))"
    using assms by (auto simp add: defineConfig_def)
  from a b c d e show ?thesis by blast
qed

theorem defineConfig_witness:
  "defineConfig
     \<lparr> schema_object = JObj [(''typeName'', JStr ''ZodObject'')],
       parse = (\<lambda>raw. if raw = JObj [(''foo'', JStr ''bar'')] then Inr raw
                       else Inl (JObj [(''name'', JStr ''ZodError'')])) \<rparr>
     (\<lambda>_. Inr (JObj [(''foo'', JStr ''bar'')]))
   = Inr (Defined (JObj [(''foo'', JStr ''bar''), (''schema'', JObj [(''typeName'', JStr ''ZodObject'')])]))
   \<and> defineConfig
     \<lparr> schema_object = JObj [(''typeName'', JStr ''ZodObject'')],
       parse = (\<lambda>raw. if raw = JObj [(''foo'', JStr ''bar'')] then Inr raw
                       else Inl (JObj [(''name'', JStr ''ZodError'')])) \<rparr>
     (\<lambda>_. Inr (JObj [(''foo'', JNum 1)]))
   = Inl (Thrown (JObj [(''name'', JStr ''ZodError'')]))
   \<and> (\<exists>msg. defineConfig
     \<lparr> schema_object = JObj [(''typeName'', JStr ''ZodReadonly'')],
       parse = (\<lambda>raw. Inr (JObject Frozen [(''foo'', JStr ''bar'')] Object_prototype)) \<rparr>
     (\<lambda>_. Inr (JObj [(''foo'', JStr ''bar'')]))
   = Inl (TypeError msg))"
  using defineConfig_parses_and_attaches_schema
    [where load = "\<lambda>_. Inr (JObj [(''foo'', JStr ''bar'')])" and raw = "JObj [(''foo'', JStr ''bar'')]"
       and schema = "\<lparr> schema_object = JObj [(''typeName'', JStr ''ZodObject'')],
       parse = (\<lambda>raw. if raw = JObj [(''foo'', JStr ''bar'')] then Inr raw
                       else Inl (JObj [(''name'', JStr ''ZodError'')])) \<rparr>"]
    defineConfig_parses_and_attaches_schema
    [where load = "\<lambda>_. Inr (JObj [(''foo'', JNum 1)])" and raw = "JObj [(''foo'', JNum 1)]"
       and schema = "\<lparr> schema_object = JObj [(''typeName'', JStr ''ZodObject'')],
       parse = (\<lambda>raw. if raw = JObj [(''foo'', JStr ''bar'')] then Inr raw
                       else Inl (JObj [(''name'', JStr ''ZodError'')])) \<rparr>"]
    defineConfig_parses_and_attaches_schema
    [where load = "\<lambda>_. Inr (JObj [(''foo'', JStr ''bar'')])" and raw = "JObj [(''foo'', JStr ''bar'')]"
       and schema = "\<lparr> schema_object = JObj [(''typeName'', JStr ''ZodReadonly'')],
       parse = (\<lambda>raw. Inr (JObject Frozen [(''foo'', JStr ''bar'')] Object_prototype)) \<rparr>"]
  by simp

text \<open>
  The claim as stated fails: what \<^verbatim>\<open>defineConfig\<close> returns is not the result of the
  parse. For the module with a member named \<^verbatim>\<open>schema\<close> the raw value validates and
  parses to itself, yet the value returned holds the Zod schema under \<^verbatim>\<open>schema\<close>, is
  not the parsed value, and does not validate against the schema. And a raw value that
  validates does not make \<^verbatim>\<open>defineConfig\<close> return: a schema whose parse gives a frozen
  object, as \<^verbatim>\<open>z.object({ foo: z.string() }).readonly()\<close> does, makes it throw a
  \<^verbatim>\<open>TypeError\<close>.
\<close>

theorem defineConfig_schema_member_counterexample:
  "parse literal_schema (JObj [(''schema'', JStr ''public'')]) = Inr (JObj [(''schema'', JStr ''public'')])
   \<and> defineConfig literal_schema literal_load
       = Inr (Defined (JObj [(''schema'', JObj [(''typeName'', JStr ''ZodObject'')])]))
   \<and> defineConfig literal_schema literal_load \<noteq> Inr (Defined (JObj [(''schema'', JStr ''public'')]))
   \<and> parse literal_schema (JObj [(''schema'', JObj [(''typeName'', JStr ''ZodObject'')])])
       = Inl (JObj [(''name'', JStr ''ZodError'')])
   \<and> defineConfig
       \<lparr> schema_object = JObj [(''typeName'', JStr ''ZodReadonly'')],
         parse = (\<lambda>raw. Inr (JObject Frozen [(''foo'', JStr ''bar'')] Object_prototype)) \<rparr>
       (\<lambda>_. Inr (JObj [(''foo'', JStr ''bar'')]))
       = Inl (TypeError ''Cannot add property schema, object is not extensible'')"
  by (simp add: defineConfig_def literal_schema_def literal_load_def Object_prototype_def
        Object_prototype_members_def)

section \<open>Properties of the service container\<close>






section \<open>Properties of the database manager\<close>

lemma getOrCreateClient_cached:
  "clients m name = Some c \<Longrightarrow> getOrCreateClient m tr name = (Inr c, m, tr)"
  by (simp add: getOrCreateClient_def)

lemma getOrCreateClient_created:
  assumes "clients m name = None" "connections m name = Some cfg"
    and "drivers m (driver cfg) = Some d" "drv_createClient d tr cfg name = Inr c"
  shows "getOrCreateClient m tr name =
           (Inr c,
            m\<lparr> clients := (clients m)(name \<mapsto> c),
               connectedClients := insert name (connectedClients m) \<rparr>,
            tr @ [CreateClient (driver cfg) name])"
  using assms by (simp add: getOrCreateClient_def createClient_def getDriver_def)

lemma getOrCreateClient_failed:
  assumes "clients m name = None" "connections m name = Some cfg"
    and "drivers m (driver cfg) = Some d" "drv_createClient d tr cfg name = Inl cause"
  shows "getOrCreateClient m tr name =
           (Inl (DatabaseClientCreationError (driver cfg) cause), m,
            tr @ [CreateClient (driver cfg) name])"
  using assms by (simp add: getOrCreateClient_def createClient_def getDriver_def)

lemma getOrCreateClient_unsupported:
  assumes "clients m name = None" "connections m name = Some cfg"
    and "drivers m (driver cfg) = None"
  shows "getOrCreateClient m tr name = (Inl (UnsupportedDatabaseDriverError (driver cfg)), m, tr)"
  using assms by (simp add: getOrCreateClient_def createClient_def getDriver_def)

lemma creations_append:
  "creations name (tr @ [e]) = creations name tr + (if is_creation_for name e then 1 else 0)"
  by (simp add: creations_def)

text \<open>
  A call for any connection leaves a stored client where it is, leaves the configuration
  alone, and adds no creation for a name that has a stored client.
\<close>

lemma createClient_trace:
  "createClient m tr n cfg = (r, tr') \<Longrightarrow> n \<noteq> name \<Longrightarrow> creations name tr' = creations name tr"
  by (auto simp: createClient_def creations_append split: sum.splits)

lemma getOrCreateClient_keeps:
  assumes "clients m name = Some c" and "getOrCreateClient m tr n = (r, m', tr')"
  shows "clients m' name = Some c \<and> defaultConnection m' = defaultConnection m
       \<and> connections m' = connections m \<and> drivers m' = drivers m
       \<and> creations name tr' = creations name tr"
proof (cases "clients m n")
  case (Some c')
  then show ?thesis using assms by (simp add: getOrCreateClient_def)
next
  case None
  with assms(1) have ne: "n \<noteq> name" by auto
  show ?thesis
  proof (cases "connections m n")
    case None
    with \<open>clients m n = None\<close> assms show ?thesis by (simp add: getOrCreateClient_def)
  next
    case (Some cfg)
    obtain r0 tr0 where cc: "createClient m tr n cfg = (r0, tr0)" by (cases "createClient m tr n cfg")
    from createClient_trace [OF cc ne] have tr0: "creations name tr0 = creations name tr" .
    show ?thesis
      using assms \<open>clients m n = None\<close> Some cc tr0 ne
      by (cases r0) (auto simp: getOrCreateClient_def)
  qed
qed

lemma run_access_keeps:
  assumes "clients m name = Some c" and "run_access m tr a = (r, m', tr')"
  shows "clients m' name = Some c \<and> defaultConnection m' = defaultConnection m
       \<and> connections m' = connections m \<and> drivers m' = drivers m
       \<and> creations name tr' = creations name tr"
proof (cases a)
  case (Client conn)
  with assms(2) have "getOrCreateClient m tr (or_else conn (defaultConnection m)) = (r, m', tr')"
    by (simp add: client_def Let_def)
  from getOrCreateClient_keeps [OF assms(1) this] show ?thesis .
next
  case (Prisma conn)
  show ?thesis
  proof (cases "\<exists>cfg. connections m (or_else conn (defaultConnection m)) = Some cfg \<and> driver cfg = ''prisma''")
    case True
    with assms(2) Prisma
    have "getOrCreateClient m tr (or_else conn (defaultConnection m)) = (r, m', tr')"
      by (auto simp: prisma_def Let_def)
    from getOrCreateClient_keeps [OF assms(1) this] show ?thesis .
  next
    case False
    with assms(2) Prisma have "m' = m \<and> tr' = tr"
      by (auto simp: prisma_def Let_def split: option.splits if_splits)
    with assms(1) show ?thesis by simp
  qed
next
  case (Drizzle conn)
  show ?thesis
  proof (cases "\<exists>cfg. connections m (or_else conn (defaultConnection m)) = Some cfg \<and> driver cfg = ''drizzle''")
    case True
    with assms(2) Drizzle
    have "getOrCreateClient m tr (or_else conn (defaultConnection m)) = (r, m', tr')"
      by (auto simp: drizzle_def Let_def)
    from getOrCreateClient_keeps [OF assms(1) this] show ?thesis .
  next
    case False
    with assms(2) Drizzle have "m' = m \<and> tr' = tr"
      by (auto simp: drizzle_def Let_def split: option.splits if_splits)
    with assms(1) show ?thesis by simp
  qed
qed

lemma run_accesses_keeps:
  assumes "clients m name = Some c" and "run_accesses m tr as = (m', tr')"
  shows "clients m' name = Some c \<and> defaultConnection m' = defaultConnection m
       \<and> connections m' = connections m \<and> drivers m' = drivers m
       \<and> creations name tr' = creations name tr"
  using assms
proof (induction as arbitrary: m tr)
  case Nil
  then show ?case by simp
next
  case (Cons a as)
  obtain r m1 tr1 where step: "run_access m tr a = (r, m1, tr1)"
    by (cases "run_access m tr a") auto
  from run_access_keeps [OF Cons.prems(1) step]
  have k1: "clients m1 name = Some c" "defaultConnection m1 = defaultConnection m"
    "connections m1 = connections m" "drivers m1 = drivers m"
    "creations name tr1 = creations name tr"
    by simp_all
  from Cons.prems(2) step have "run_accesses m1 tr1 as = (m', tr')" by simp
  from Cons.IH [OF k1(1) this] show ?case using k1 by simp
qed

lemma getDriver_lookup:
  "drivers m nm = None \<Longrightarrow> getDriver m nm = Inl (UnsupportedDatabaseDriverError nm)"
  "drivers m nm = Some d \<Longrightarrow> getDriver m nm = Inr d"
  by (simp_all add: getDriver_def)

lemma createClient_lookup:
  "drivers m (driver cfg) = None \<Longrightarrow>
     createClient m tr name cfg = (Inl (UnsupportedDatabaseDriverError (driver cfg)), tr)"
  "drivers m (driver cfg) = Some d \<Longrightarrow>
     createClient m tr name cfg =
       (case drv_createClient d tr cfg name of
          Inl cause \<Rightarrow> (Inl (DatabaseClientCreationError (driver cfg) cause),
                        tr @ [CreateClient (driver cfg) name])
        | Inr c \<Rightarrow> (Inr c, tr @ [CreateClient (driver cfg) name]))"
  by (simp_all add: createClient_def getDriver_def split: sum.splits)

lemma transaction_lookup:
  assumes "or_else conn (defaultConnection m) = name" "connections m name = Some cfg"
    and "clients m name = Some c"
  shows "drivers m (driver cfg) = None \<Longrightarrow>
           transaction m tr cb conn = (Inl (UnsupportedDatabaseDriverError (driver cfg)), m, tr)"
    and "drivers m (driver cfg) = Some d \<Longrightarrow>
           transaction m tr cb conn =
             (case drv_transaction d tr c cb of
                Inl e \<Rightarrow> (Inl (DriverThrew e), m, tr @ [RunTransaction (driver cfg) c])
              | Inr r \<Rightarrow> (Inr r, m, tr @ [RunTransaction (driver cfg) c]))"
  using assms
  by (simp_all add: transaction_def Let_def getOrCreateClient_cached getDriver_def split: sum.splits)

lemma transaction_lookup_uncached:
  assumes "or_else conn (defaultConnection m) = name" "connections m name = Some cfg"
    and "clients m name = None" "drivers m (driver cfg) = None"
  shows "transaction m tr cb conn = (Inl (UnsupportedDatabaseDriverError (driver cfg)), m, tr)"
  using assms by (simp add: transaction_def Let_def getOrCreateClient_unsupported)

lemma transaction_lookup_created:
  assumes "or_else conn (defaultConnection m) = name" "connections m name = Some cfg"
    and "clients m name = None" "drivers m (driver cfg) = Some d"
  shows "transaction m tr cb conn =
           (case drv_createClient d tr cfg name of
              Inl cause \<Rightarrow> (Inl (DatabaseClientCreationError (driver cfg) cause), m,
                            tr @ [CreateClient (driver cfg) name])
            | Inr c \<Rightarrow>
                (case drv_transaction d (tr @ [CreateClient (driver cfg) name]) c cb of
                   Inl e \<Rightarrow>
                     (Inl (DriverThrew e),
                      m\<lparr> clients := (clients m)(name \<mapsto> c),
                         connectedClients := insert name (connectedClients m) \<rparr>,
                      tr @ [CreateClient (driver cfg) name, RunTransaction (driver cfg) c])
                 | Inr r \<Rightarrow>
                     (Inr r,
                      m\<lparr> clients := (clients m)(name \<mapsto> c),
                         connectedClients := insert name (connectedClients m) \<rparr>,
                      tr @ [CreateClient (driver cfg) name, RunTransaction (driver cfg) c])))"
proof (cases "drv_createClient d tr cfg name")
  case (Inl cause)
  from getOrCreateClient_failed [OF assms(3) assms(2) assms(4) Inl]
  show ?thesis using assms(1,2) Inl by (simp add: transaction_def Let_def)
next
  case (Inr c)
  from getOrCreateClient_created [OF assms(3) assms(2) assms(4) Inr]
  show ?thesis using assms(1,2,4) Inr
    by (simp add: transaction_def Let_def getDriver_def split: sum.splits)
qed

lemma disconnect_lookup:
  assumes "or_else conn (defaultConnection m) = name" "connections m name = Some cfg"
    and "clients m name = Some c" "truthy c"
  shows "drivers m (driver cfg) = None \<Longrightarrow>
           disconnect m tr conn =
             (Inr (), m, tr @ [ConsoleError name (UnsupportedDatabaseDriverError (driver cfg))])"
    and "drivers m (driver cfg) = Some d \<Longrightarrow>
           disconnect m tr conn =
             (case drv_disconnect d tr c of
                Some e \<Rightarrow>
                  (Inr (), m, tr @ [Disconnect (driver cfg) c, ConsoleError name (DriverThrew e)])
              | None \<Rightarrow>
                  (Inr (), m\<lparr> connectedClients := connectedClients m - {name} \<rparr>,
                   tr @ [Disconnect (driver cfg) c]))"
  using assms by (simp_all add: disconnect_def Let_def getDriver_def split: option.splits)

lemma registerClient_lookup:
  "drivers m nm = None \<Longrightarrow> registerClient m name c nm = Inl (UnsupportedDatabaseDriverError nm)"
  "drivers m nm = Some d \<Longrightarrow>
     registerClient m name c nm =
       Inr (m\<lparr> clients := (clients m)(name \<mapsto> c),
              connections := (connections m)
                 (name \<mapsto> \<lparr> driver = nm, url = None, connection = None, pool = None \<rparr>),
              connectedClients := insert name (connectedClients m) \<rparr>)"
  by (auto simp: registerClient_def)

text \<open>
  Claim C2. For every driver name, the manager resolves a driver by one lookup in the map
  of registered drivers: \<^verbatim>\<open>getDriver\<close> returns the driver registered under exactly that
  name, and throws \<^verbatim>\<open>UnsupportedDatabaseDriverError\<close> when there is none. The same holds
  where the manager resolves the driver of a connection: when it creates a client, the
  client comes from the registered driver's \<^verbatim>\<open>createClient\<close>; when it runs a
  transaction, the result is that of the registered driver's \<^verbatim>\<open>transaction\<close>, on the
  stored client or, when none is stored, on the client that the same registered driver
  creates first (a failure of that creation ends the transaction); when it disconnects,
  the registered driver's \<^verbatim>\<open>disconnect\<close> is what runs; and \<^verbatim>\<open>registerClient\<close>
  accepts exactly the registered names and stores the connection under the driver name
  it was given, so that later calls resolve that same name. Without a registered
  driver each of them ends in \<^verbatim>\<open>UnsupportedDatabaseDriverError\<close> and no driver is
  called (in \<^verbatim>\<open>disconnect\<close> the error thrown by the lookup is caught and logged by
  the surrounding \<^verbatim>\<open>try\<close>). \<^verbatim>\<open>registerDriver\<close> sets the driver of its own name
  and of no other.
\<close>

theorem driver_resolution_is_one_lookup:
  assumes "driver cfg = nm" and "or_else conn (defaultConnection m) = name"
  shows "(drivers m nm = None \<longrightarrow> getDriver m nm = Inl (UnsupportedDatabaseDriverError nm))
       \<and> (drivers m nm = Some d \<longrightarrow> getDriver m nm = Inr d)
       \<and> (drivers m nm = None \<longrightarrow>
            createClient m tr name cfg = (Inl (UnsupportedDatabaseDriverError nm), tr))
       \<and> (drivers m nm = Some d \<longrightarrow>
            createClient m tr name cfg =
              (case drv_createClient d tr cfg name of
                 Inl cause \<Rightarrow> (Inl (DatabaseClientCreationError nm cause),
                               tr @ [CreateClient nm name])
               | Inr c \<Rightarrow> (Inr c, tr @ [CreateClient nm name])))
       \<and> (connections m name = Some cfg \<and> drivers m nm = None \<longrightarrow>
            transaction m tr cb conn = (Inl (UnsupportedDatabaseDriverError nm), m, tr))
       \<and> (connections m name = Some cfg \<and> clients m name = Some c \<and> drivers m nm = Some d \<longrightarrow>
            transaction m tr cb conn =
              (case drv_transaction d tr c cb of
                 Inl e \<Rightarrow> (Inl (DriverThrew e), m, tr @ [RunTransaction nm c])
               | Inr r \<Rightarrow> (Inr r, m, tr @ [RunTransaction nm c])))
       \<and> (connections m name = Some cfg \<and> clients m name = None \<and> drivers m nm = Some d \<longrightarrow>
            transaction m tr cb conn =
              (case drv_createClient d tr cfg name of
                 Inl cause \<Rightarrow> (Inl (DatabaseClientCreationError nm cause), m,
                               tr @ [CreateClient nm name])
               | Inr c' \<Rightarrow>
                   (case drv_transaction d (tr @ [CreateClient nm name]) c' cb of
                      Inl e \<Rightarrow>
                        (Inl (DriverThrew e),
                         m\<lparr> clients := (clients m)(name \<mapsto> c'),
                            connectedClients := insert name (connectedClients m) \<rparr>,
                         tr @ [CreateClient nm name, RunTransaction nm c'])
                    | Inr r \<Rightarrow>
                        (Inr r,
                         m\<lparr> clients := (clients m)(name \<mapsto> c'),
                            connectedClients := insert name (connectedClients m) \<rparr>,
                         tr @ [CreateClient nm name, RunTransaction nm c']))))
       \<and> (connections m name = Some cfg \<and> clients m name = Some c \<and> truthy c
            \<and> drivers m nm = None \<longrightarrow>
            disconnect m tr conn =
              (Inr (), m, tr @ [ConsoleError name (UnsupportedDatabaseDriverError nm)]))
       \<and> (connections m name = Some cfg \<and> clients m name = Some c \<and> truthy c
            \<and> drivers m nm = Some d \<longrightarrow>
            disconnect m tr conn =
              (case drv_disconnect d tr c of
                 Some e \<Rightarrow> (Inr (), m, tr @ [Disconnect nm c, ConsoleError name (DriverThrew e)])
               | None \<Rightarrow> (Inr (), m\<lparr> connectedClients := connectedClients m - {name} \<rparr>,
                           tr @ [Disconnect nm c])))
       \<and> (drivers m nm = None \<longrightarrow>
            registerClient m name c nm = Inl (UnsupportedDatabaseDriverError nm))
       \<and> (drivers m nm = Some d \<longrightarrow>
            registerClient m name c nm =
              Inr (m\<lparr> clients := (clients m)(name \<mapsto> c),
                     connections := (connections m)
                        (name \<mapsto> \<lparr> driver = nm, url = None, connection = None, pool = None \<rparr>),
                     connectedClients := insert name (connectedClients m) \<rparr>))
       \<and> getDriver (registerDriver m nm d') nm = Inr d'
       \<and> (nm' \<noteq> nm \<longrightarrow> getDriver (registerDriver m nm d') nm' = getDriver m nm')"
proof -
  have rd: "getDriver (registerDriver m nm d') nm = Inr d'
       \<and> (nm' \<noteq> nm \<longrightarrow> getDriver (registerDriver m nm d') nm' = getDriver m nm')"
    by (simp add: getDriver_def registerDriver_def)
  have g: "(drivers m nm = None \<longrightarrow> getDriver m nm = Inl (UnsupportedDatabaseDriverError nm))
       \<and> (drivers m nm = Some d \<longrightarrow> getDriver m nm = Inr d)"
    by (simp add: getDriver_lookup)
  have cr: "(drivers m nm = None \<longrightarrow>
            createClient m tr name cfg = (Inl (UnsupportedDatabaseDriverError nm), tr))
       \<and> (drivers m nm = Some d \<longrightarrow>
            createClient m tr name cfg =
              (case drv_createClient d tr cfg name of
                 Inl cause \<Rightarrow> (Inl (DatabaseClientCreationError nm cause),
                               tr @ [CreateClient nm name])
               | Inr c \<Rightarrow> (Inr c, tr @ [CreateClient nm name])))"
    using assms(1)
      createClient_lookup(1) [where m = m and cfg = cfg and tr = tr and name = name]
      createClient_lookup(2) [where m = m and cfg = cfg and tr = tr and name = name and d = d]
    by auto
  have tx: "connections m name = Some cfg \<and> drivers m nm = None \<longrightarrow>
            transaction m tr cb conn = (Inl (UnsupportedDatabaseDriverError nm), m, tr)"
  proof (cases "clients m name")
    case None
    then show ?thesis
      using assms transaction_lookup_uncached
        [where conn = conn and m = m and name = name and cfg = cfg and tr = tr and cb = cb]
      by auto
  next
    case (Some c')
    then show ?thesis
      using assms transaction_lookup(1)
        [where conn = conn and m = m and name = name and cfg = cfg and c = c' and tr = tr and cb = cb]
      by auto
  qed
  have tx2: "connections m name = Some cfg \<and> clients m name = Some c \<and> drivers m nm = Some d \<longrightarrow>
            transaction m tr cb conn =
              (case drv_transaction d tr c cb of
                 Inl e \<Rightarrow> (Inl (DriverThrew e), m, tr @ [RunTransaction nm c])
               | Inr r \<Rightarrow> (Inr r, m, tr @ [RunTransaction nm c]))"
    using assms transaction_lookup(2)
      [where conn = conn and m = m and name = name and cfg = cfg and c = c and d = d and tr = tr
         and cb = cb]
    by auto
  have tx3: "connections m name = Some cfg \<and> clients m name = None \<and> drivers m nm = Some d \<longrightarrow>
            transaction m tr cb conn =
              (case drv_createClient d tr cfg name of
                 Inl cause \<Rightarrow> (Inl (DatabaseClientCreationError nm cause), m,
                               tr @ [CreateClient nm name])
               | Inr c' \<Rightarrow>
                   (case drv_transaction d (tr @ [CreateClient nm name]) c' cb of
                      Inl e \<Rightarrow>
                        (Inl (DriverThrew e),
                         m\<lparr> clients := (clients m)(name \<mapsto> c'),
                            connectedClients := insert name (connectedClients m) \<rparr>,
                         tr @ [CreateClient nm name, RunTransaction nm c'])
                    | Inr r \<Rightarrow>
                        (Inr r,
                         m\<lparr> clients := (clients m)(name \<mapsto> c'),
                            connectedClients := insert name (connectedClients m) \<rparr>,
                         tr @ [CreateClient nm name, RunTransaction nm c'])))"
    using assms transaction_lookup_created
      [where conn = conn and m = m and name = name and cfg = cfg and d = d and tr = tr and cb = cb]
    by auto
  have d1: "connections m name = Some cfg \<and> clients m name = Some c \<and> truthy c
            \<and> drivers m nm = None \<longrightarrow>
            disconnect m tr conn =
              (Inr (), m, tr @ [ConsoleError name (UnsupportedDatabaseDriverError nm)])"
    using assms disconnect_lookup(1)
      [where conn = conn and m = m and name = name and cfg = cfg and c = c and tr = tr]
    by auto
  have d2: "connections m name = Some cfg \<and> clients m name = Some c \<and> truthy c
            \<and> drivers m nm = Some d \<longrightarrow>
            disconnect m tr conn =
              (case drv_disconnect d tr c of
                 Some e \<Rightarrow> (Inr (), m, tr @ [Disconnect nm c, ConsoleError name (DriverThrew e)])
               | None \<Rightarrow> (Inr (), m\<lparr> connectedClients := connectedClients m - {name} \<rparr>,
                           tr @ [Disconnect nm c]))"
    using assms disconnect_lookup(2)
      [where conn = conn and m = m and name = name and cfg = cfg and c = c and d = d and tr = tr]
    by auto
  have rc: "(drivers m nm = None \<longrightarrow>
            registerClient m name c nm = Inl (UnsupportedDatabaseDriverError nm))
       \<and> (drivers m nm = Some d \<longrightarrow>
            registerClient m name c nm =
              Inr (m\<lparr> clients := (clients m)(name \<mapsto> c),
                     connections := (connections m)
                        (name \<mapsto> \<lparr> driver = nm, url = None, connection = None, pool = None \<rparr>),
                     connectedClients := insert name (connectedClients m) \<rparr>))"
    using registerClient_lookup(1) [where m = m and nm = nm and name = name and c = c]
      registerClient_lookup(2) [where m = m and nm = nm and name = name and c = c and d = d]
    by blast
  from g cr tx tx2 tx3 d1 d2 rc rd show ?thesis by blast
qed

lemma example_manager_fields:
  "defaultConnection (new_DatabaseManager example_orm example_config) = ''default''"
  "connections (new_DatabaseManager example_orm example_config) ''default''
     = Some \<lparr> driver = ''prisma'', url = Some ''postgresql://localhost/app'',
              connection = None, pool = None \<rparr>"
  "connections (new_DatabaseManager example_orm example_config) ''analytics''
     = Some \<lparr> driver = ''drizzle'', url = None, connection = None, pool = None \<rparr>"
  "clients (new_DatabaseManager example_orm example_config) = Map.empty"
  "connectedClients (new_DatabaseManager example_orm example_config) = {}"
  "drivers (new_DatabaseManager example_orm example_config) ''prisma'' = Some (PrismaDriver example_orm)"
  "drivers (new_DatabaseManager example_orm example_config) ''drizzle'' = Some (DrizzleDriver example_orm)"
  "drivers (new_DatabaseManager example_orm example_config) ''mysql'' = None"
  by (simp_all add: new_DatabaseManager_def example_config_def registerDriver_def Let_def)

theorem driver_resolution_witness:
  "getDriver (new_DatabaseManager example_orm example_config) ''mysql''
     = Inl (UnsupportedDatabaseDriverError ''mysql'')
   \<and> registerClient (new_DatabaseManager example_orm example_config) ''legacy'' JNull ''mysql''
     = Inl (UnsupportedDatabaseDriverError ''mysql'')
   \<and> getDriver (new_DatabaseManager example_orm example_config) ''drizzle''
     = Inr (DrizzleDriver example_orm)
   \<and> createClient (new_DatabaseManager example_orm example_config) [] ''analytics''
            \<lparr> driver = ''drizzle'', url = Some ''postgresql://localhost/stats'',
              connection = None, pool = None \<rparr>
     = (Inr (JObj [(''orm'', JStr ''drizzle''), (''url'', JStr ''postgresql://localhost/stats''),
                   (''created'', JNum 0)]),
        [CreateClient ''drizzle'' ''analytics''])
   \<and> fst (transaction (new_DatabaseManager example_orm example_config) []
            (\<lambda>c. Inr (js_get c ''orm'')) (Some ''default''))
     = Inr (JStr ''prisma'')
   \<and> snd (snd (transaction (new_DatabaseManager example_orm example_config) []
            (\<lambda>c. Inr (js_get c ''orm'')) (Some ''default'')))
     = [CreateClient ''prisma'' ''default'',
        RunTransaction ''prisma''
          (JObj [(''orm'', JStr ''prisma''), (''created'', JNum 0), (''$disconnect'', JBool True)])]"
proof -
  let ?m = "new_DatabaseManager example_orm example_config"
  let ?cfg = "\<lparr> driver = ''drizzle'', url = Some ''postgresql://localhost/stats'',
              connection = None, pool = None \<rparr>"
  let ?pcfg = "\<lparr> driver = ''prisma'', url = Some ''postgresql://localhost/app'',
              connection = None, pool = None \<rparr>"
  let ?cb = "\<lambda>c. Inr (js_get c ''orm'') :: jsval + jsval"
  let ?pc = "JObj [(''orm'', JStr ''prisma''), (''created'', JNum 0), (''$disconnect'', JBool True)]"
  have a: "driver \<lparr> driver = ''mysql'', url = None, connection = None, pool = None \<rparr> = ''mysql''"
    by simp
  have b: "or_else (Some ''legacy'') (defaultConnection ?m) = ''legacy''" by simp
  have c: "driver ?cfg = ''drizzle''" by simp
  have d: "or_else (Some ''analytics'') (defaultConnection ?m) = ''analytics''" by simp
  have e: "driver ?pcfg = ''prisma''" by simp
  have f: "or_else (Some ''default'') (defaultConnection ?m) = ''default''" by simp
  from driver_resolution_is_one_lookup [OF a b, where c = JNull]
  have 1: "getDriver ?m ''mysql'' = Inl (UnsupportedDatabaseDriverError ''mysql'')
       \<and> registerClient ?m ''legacy'' JNull ''mysql'' = Inl (UnsupportedDatabaseDriverError ''mysql'')"
    by (simp add: example_manager_fields)
  have 3: "drv_createClient (DrizzleDriver example_orm) [] ?cfg ''analytics''
         = Inr (JObj [(''orm'', JStr ''drizzle''), (''url'', JStr ''postgresql://localhost/stats''),
                  (''created'', JNum 0)])"
    by (simp add: DrizzleDriver_def example_orm_def)
  from driver_resolution_is_one_lookup [OF c d, where d = "DrizzleDriver example_orm" and tr = "[]"]
  have 2: "getDriver ?m ''drizzle'' = Inr (DrizzleDriver example_orm)
       \<and> createClient ?m [] ''analytics'' ?cfg =
           (Inr (JObj [(''orm'', JStr ''drizzle''), (''url'', JStr ''postgresql://localhost/stats''),
                       (''created'', JNum 0)]),
            [CreateClient ''drizzle'' ''analytics''])"
    using 3 by (simp add: example_manager_fields)
  have 4: "drv_createClient (PrismaDriver example_orm) [] ?pcfg ''default'' = Inr ?pc"
    by (simp add: PrismaDriver_def example_orm_def)
  have 5: "drv_transaction (PrismaDriver example_orm) [CreateClient ''prisma'' ''default''] ?pc ?cb
         = Inr (JStr ''prisma'')"
    by (simp add: PrismaDriver_def example_orm_def js_get_def)
  from driver_resolution_is_one_lookup
    [OF e f, where d = "PrismaDriver example_orm" and tr = "[]" and cb = ?cb]
  have 6: "transaction ?m [] ?cb (Some ''default'') =
           (Inr (JStr ''prisma''),
            ?m\<lparr> clients := (clients ?m)(''default'' \<mapsto> ?pc),
                connectedClients := insert ''default'' (connectedClients ?m) \<rparr>,
            [CreateClient ''prisma'' ''default'', RunTransaction ''prisma'' ?pc])"
    using 4 5 by (simp add: example_manager_fields)
  from 1 2 6 show ?thesis by simp
qed

text \<open>
  Claim C9. When the driver's \<^verbatim>\<open>disconnect\<close> throws for a connection that is configured
  and has a client, \<^verbatim>\<open>DatabaseManager.disconnect\<close> resolves normally and leaves the
  manager as it was: the client stays in the cache, and the connection is in the set of
  connected names exactly if it was before. The failure is only written to the console.
\<close>

theorem disconnect_swallows_driver_failure:
  assumes "or_else conn (defaultConnection m) = name"
    and "clients m name = Some c" "truthy c" "connections m name = Some cfg"
    and "drivers m (driver cfg) = Some d" "drv_disconnect d tr c = Some e"
  shows "fst (disconnect m tr conn) = Inr ()
       \<and> fst (snd (disconnect m tr conn)) = m
       \<and> clients (fst (snd (disconnect m tr conn))) name = Some c
       \<and> (name \<in> connectedClients (fst (snd (disconnect m tr conn)))) = (name \<in> connectedClients m)
       \<and> snd (snd (disconnect m tr conn))
           = tr @ [Disconnect (driver cfg) c, ConsoleError name (DriverThrew e)]"
  using assms by (simp add: disconnect_def Let_def getDriver_def)

lemma flaky_manager_fields:
  "defaultConnection flaky_manager = ''default''"
  "clients flaky_manager ''cache'' = Some (JObj [(''id'', JNum 7)])"
  "connections flaky_manager ''cache''
     = Some \<lparr> driver = ''flaky'', url = None, connection = None, pool = None \<rparr>"
  "drivers flaky_manager ''flaky'' = Some flaky_driver"
  "''cache'' \<in> connectedClients flaky_manager"
  by (simp_all add: flaky_manager_def registerClient_def registerDriver_def
        new_DatabaseManager_def example_config_def Let_def)

theorem disconnect_swallows_witness:
  "fst (disconnect flaky_manager [] (Some ''cache'')) = Inr ()
   \<and> fst (snd (disconnect flaky_manager [] (Some ''cache''))) = flaky_manager
   \<and> clients (fst (snd (disconnect flaky_manager [] (Some ''cache'')))) ''cache''
       = Some (JObj [(''id'', JNum 7)])
   \<and> ''cache'' \<in> connectedClients (fst (snd (disconnect flaky_manager [] (Some ''cache''))))"
proof -
  have a: "or_else (Some ''cache'') (defaultConnection flaky_manager) = ''cache''" by simp
  have b: "truthy (JObj [(''id'', JNum 7)])" by simp
  have c: "drivers flaky_manager
             (driver \<lparr> driver = ''flaky'', url = None, connection = None, pool = None \<rparr>)
           = Some flaky_driver"
    by (simp add: flaky_manager_fields)
  have d: "drv_disconnect flaky_driver [] (JObj [(''id'', JNum 7)])
           = Some (JObj [(''name'', JStr ''Error''), (''message'', JStr ''socket hang up'')])"
    by (simp add: flaky_driver_def)
  from disconnect_swallows_driver_failure
         [OF a flaky_manager_fields(2) b flaky_manager_fields(3) c d]
  show ?thesis by (simp add: flaky_manager_fields)
qed

lemma prisma_cases:
  assumes "or_else conn (defaultConnection m) = name"
  shows "connections m name = None \<or> (connections m name = Some cfg \<and> driver cfg \<noteq> ''prisma'')
           \<Longrightarrow> prisma m tr conn = (Inr JNull, m, tr)"
    and "connections m name = Some cfg \<Longrightarrow> driver cfg = ''prisma''
           \<Longrightarrow> prisma m tr conn = getOrCreateClient m tr name"
  using assms by (auto simp: prisma_def Let_def)

lemma drizzle_cases:
  assumes "or_else conn (defaultConnection m) = name"
  shows "connections m name = None \<or> (connections m name = Some cfg \<and> driver cfg \<noteq> ''drizzle'')
           \<Longrightarrow> drizzle m tr conn = (Inr JNull, m, tr)"
    and "connections m name = Some cfg \<Longrightarrow> driver cfg = ''drizzle''
           \<Longrightarrow> drizzle m tr conn = getOrCreateClient m tr name"
  using assms by (auto simp: drizzle_def Let_def)

text \<open>
  Claim C4 (amended). Let the name be the connection argument, or the default connection
  name when the argument is omitted or empty. \<^verbatim>\<open>DatabaseManager.prisma\<close> returns
  \<^verbatim>\<open>null\<close> and leaves the manager unchanged when no configuration of that name exists
  or its driver is not \<^verbatim>\<open>prisma\<close> (the facade \<^verbatim>\<open>DB.prisma\<close> then throws a plain
  \<^verbatim>\<open>Error\<close>). When the configuration exists with the driver \<^verbatim>\<open>prisma\<close>, it returns
  the stored client of the connection if there is one; otherwise it asks the driver for a
  client, which it stores and returns when the creation succeeds, and it throws
  \<^verbatim>\<open>DatabaseClientCreationError\<close>, storing nothing, when the driver's
  \<^verbatim>\<open>createClient\<close> throws. The same holds for \<^verbatim>\<open>drizzle\<close> and the driver
  \<^verbatim>\<open>drizzle\<close>.
\<close>

theorem orm_accessors_switch_on_driver:
  assumes "or_else conn (defaultConnection m) = name"
  shows "((connections m name = None \<or> (connections m name = Some cfg \<and> driver cfg \<noteq> ''prisma''))
            \<longrightarrow> prisma m tr conn = (Inr JNull, m, tr)
              \<and> (\<exists>msg. fst (DB_prisma (Some m) tr conn) = Inl (PlainError msg)))
       \<and> (connections m name = Some cfg \<and> driver cfg = ''prisma'' \<and> clients m name = Some c
            \<longrightarrow> prisma m tr conn = (Inr c, m, tr))
       \<and> (connections m name = Some cfg \<and> driver cfg = ''prisma'' \<and> clients m name = None
            \<and> drivers m ''prisma'' = Some d \<and> drv_createClient d tr cfg name = Inr c
            \<longrightarrow> prisma m tr conn =
                  (Inr c,
                   m\<lparr> clients := (clients m)(name \<mapsto> c),
                      connectedClients := insert name (connectedClients m) \<rparr>,
                   tr @ [CreateClient ''prisma'' name]))
       \<and> (connections m name = Some cfg \<and> driver cfg = ''prisma'' \<and> clients m name = None
            \<and> drivers m ''prisma'' = Some d \<and> drv_createClient d tr cfg name = Inl cause
            \<longrightarrow> prisma m tr conn =
                  (Inl (DatabaseClientCreationError ''prisma'' cause), m,
                   tr @ [CreateClient ''prisma'' name]))
       \<and> ((connections m name = None \<or> (connections m name = Some cfg \<and> driver cfg \<noteq> ''drizzle''))
            \<longrightarrow> drizzle m tr conn = (Inr JNull, m, tr)
              \<and> (\<exists>msg. fst (DB_drizzle (Some m) tr conn) = Inl (PlainError msg)))
       \<and> (connections m name = Some cfg \<and> driver cfg = ''drizzle'' \<and> clients m name = Some c
            \<longrightarrow> drizzle m tr conn = (Inr c, m, tr))
       \<and> (connections m name = Some cfg \<and> driver cfg = ''drizzle'' \<and> clients m name = None
            \<and> drivers m ''drizzle'' = Some d \<and> drv_createClient d tr cfg name = Inr c
            \<longrightarrow> drizzle m tr conn =
                  (Inr c,
                   m\<lparr> clients := (clients m)(name \<mapsto> c),
                      connectedClients := insert name (connectedClients m) \<rparr>,
                   tr @ [CreateClient ''drizzle'' name]))
       \<and> (connections m name = Some cfg \<and> driver cfg = ''drizzle'' \<and> clients m name = None
            \<and> drivers m ''drizzle'' = Some d \<and> drv_createClient d tr cfg name = Inl cause
            \<longrightarrow> drizzle m tr conn =
                  (Inl (DatabaseClientCreationError ''drizzle'' cause), m,
                   tr @ [CreateClient ''drizzle'' name]))
       \<and> or_else None (defaultConnection m) = defaultConnection m
       \<and> or_else (Some []) (defaultConnection m) = defaultConnection m"
proof -
  note p = prisma_cases [OF assms, where cfg = cfg and tr = tr]
  note z = drizzle_cases [OF assms, where cfg = cfg and tr = tr]
  have p1: "(connections m name = None \<or> (connections m name = Some cfg \<and> driver cfg \<noteq> ''prisma''))
            \<longrightarrow> prisma m tr conn = (Inr JNull, m, tr)
              \<and> (\<exists>msg. fst (DB_prisma (Some m) tr conn) = Inl (PlainError msg))"
    using p(1) by (auto simp: DB_prisma_def)
  have p2: "connections m name = Some cfg \<and> driver cfg = ''prisma'' \<and> clients m name = Some c
            \<longrightarrow> prisma m tr conn = (Inr c, m, tr)"
    using p(2) by (auto simp: getOrCreateClient_cached)
  have p3: "connections m name = Some cfg \<and> driver cfg = ''prisma'' \<and> clients m name = None
            \<and> drivers m ''prisma'' = Some d \<and> drv_createClient d tr cfg name = Inr c
            \<longrightarrow> prisma m tr conn =
                  (Inr c,
                   m\<lparr> clients := (clients m)(name \<mapsto> c),
                      connectedClients := insert name (connectedClients m) \<rparr>,
                   tr @ [CreateClient ''prisma'' name])"
    using p(2) getOrCreateClient_created [where m = m and name = name and cfg = cfg and d = d
        and tr = tr and c = c]
    by auto
  have p4: "connections m name = Some cfg \<and> driver cfg = ''prisma'' \<and> clients m name = None
            \<and> drivers m ''prisma'' = Some d \<and> drv_createClient d tr cfg name = Inl cause
            \<longrightarrow> prisma m tr conn =
                  (Inl (DatabaseClientCreationError ''prisma'' cause), m,
                   tr @ [CreateClient ''prisma'' name])"
    using p(2) getOrCreateClient_failed [where m = m and name = name and cfg = cfg and d = d
        and tr = tr and cause = cause]
    by auto
  have z1: "(connections m name = None \<or> (connections m name = Some cfg \<and> driver cfg \<noteq> ''drizzle''))
            \<longrightarrow> drizzle m tr conn = (Inr JNull, m, tr)
              \<and> (\<exists>msg. fst (DB_drizzle (Some m) tr conn) = Inl (PlainError msg))"
    using z(1) by (auto simp: DB_drizzle_def)
  have z2: "connections m name = Some cfg \<and> driver cfg = ''drizzle'' \<and> clients m name = Some c
            \<longrightarrow> drizzle m tr conn = (Inr c, m, tr)"
    using z(2) by (auto simp: getOrCreateClient_cached)
  have z3: "connections m name = Some cfg \<and> driver cfg = ''drizzle'' \<and> clients m name = None
            \<and> drivers m ''drizzle'' = Some d \<and> drv_createClient d tr cfg name = Inr c
            \<longrightarrow> drizzle m tr conn =
                  (Inr c,
                   m\<lparr> clients := (clients m)(name \<mapsto> c),
                      connectedClients := insert name (connectedClients m) \<rparr>,
                   tr @ [CreateClient ''drizzle'' name])"
    using z(2) getOrCreateClient_created [where m = m and name = name and cfg = cfg and d = d
        and tr = tr and c = c]
    by auto
  have z4: "connections m name = Some cfg \<and> driver cfg = ''drizzle'' \<and> clients m name = None
            \<and> drivers m ''drizzle'' = Some d \<and> drv_createClient d tr cfg name = Inl cause
            \<longrightarrow> drizzle m tr conn =
                  (Inl (DatabaseClientCreationError ''drizzle'' cause), m,
                   tr @ [CreateClient ''drizzle'' name])"
    using z(2) getOrCreateClient_failed [where m = m and name = name and cfg = cfg and d = d
        and tr = tr and cause = cause]
    by auto
  have o: "or_else None (defaultConnection m) = defaultConnection m
       \<and> or_else (Some []) (defaultConnection m) = defaultConnection m"
    by simp
  from p1 p2 p3 p4 z1 z2 z3 z4 o show ?thesis by blast
qed

theorem orm_accessors_witness:
  "prisma (new_DatabaseManager example_orm example_config) [] None
     = (Inr (JObj [(''orm'', JStr ''prisma''), (''created'', JNum 0), (''$disconnect'', JBool True)]),
        (new_DatabaseManager example_orm example_config)
          \<lparr> clients := (clients (new_DatabaseManager example_orm example_config))
               (''default'' \<mapsto> JObj [(''orm'', JStr ''prisma''), (''created'', JNum 0),
                                      (''$disconnect'', JBool True)]),
            connectedClients :=
               insert ''default'' (connectedClients (new_DatabaseManager example_orm example_config)) \<rparr>,
        [CreateClient ''prisma'' ''default''])
   \<and> drizzle (new_DatabaseManager example_orm example_config) [] None
     = (Inr JNull, new_DatabaseManager example_orm example_config, [])"
proof -
  let ?m = "new_DatabaseManager example_orm example_config"
  let ?cfg = "\<lparr> driver = ''prisma'', url = Some ''postgresql://localhost/app'',
              connection = None, pool = None \<rparr>"
  have a: "or_else None (defaultConnection ?m) = ''default''"
    by (simp add: example_manager_fields)
  have b: "drv_createClient (PrismaDriver example_orm) [] ?cfg ''default''
        = Inr (JObj [(''orm'', JStr ''prisma''), (''created'', JNum 0), (''$disconnect'', JBool True)])"
    by (simp add: PrismaDriver_def example_orm_def)
  from orm_accessors_switch_on_driver
         [OF a, where cfg = ?cfg and d = "PrismaDriver example_orm" and tr = "[]"
            and c = "JObj [(''orm'', JStr ''prisma''), (''created'', JNum 0), (''$disconnect'', JBool True)]"]
  show ?thesis using b by (simp add: example_manager_fields)
qed

text \<open>
  The claim as stated fails when the driver cannot create the client: the configuration
  named \<^verbatim>\<open>analytics\<close> exists and its driver is \<^verbatim>\<open>drizzle\<close>, but it has no URL, so
  the built-in Drizzle driver throws and \<^verbatim>\<open>drizzle('analytics')\<close> throws
  \<^verbatim>\<open>DatabaseClientCreationError\<close> instead of returning a client.
\<close>

theorem drizzle_without_url_counterexample:
  "connections (new_DatabaseManager example_orm example_config) ''analytics''
     = Some \<lparr> driver = ''drizzle'', url = None, connection = None, pool = None \<rparr>
   \<and> fst (drizzle (new_DatabaseManager example_orm example_config) [] (Some ''analytics''))
     = Inl (DatabaseClientCreationError ''drizzle''
              (JObj [(''name'', JStr ''Error''),
                     (''message'', JStr ''Drizzle connection URL is required in config'')]))"
proof -
  let ?m = "new_DatabaseManager example_orm example_config"
  let ?cfg = "\<lparr> driver = ''drizzle'', url = None, connection = None, pool = None \<rparr>"
  have b: "drv_createClient (DrizzleDriver example_orm) [] ?cfg ''analytics''
        = Inl (JObj [(''name'', JStr ''Error''),
                     (''message'', JStr ''Drizzle connection URL is required in config'')])"
    by (simp add: DrizzleDriver_def buildUrlFromConnection_def)
  have "getOrCreateClient ?m [] ''analytics''
        = (Inl (DatabaseClientCreationError (driver ?cfg)
              (JObj [(''name'', JStr ''Error''),
                     (''message'', JStr ''Drizzle connection URL is required in config'')])),
           ?m, [] @ [CreateClient (driver ?cfg) ''analytics''])"
    by (rule getOrCreateClient_failed [where d = "DrizzleDriver example_orm"])
       (simp_all add: example_manager_fields b)
  then show ?thesis
    by (simp add: drizzle_def Let_def example_manager_fields)
qed

text \<open>
  Claim C8 (amended). Let the name be the connection argument or, when it is omitted or
  empty, the default connection. When the connection is configured, has no stored client,
  its driver is registered and the driver's \<^verbatim>\<open>createClient\<close> succeeds, the first call
  of \<^verbatim>\<open>client()\<close> (and of \<^verbatim>\<open>prisma()\<close> or \<^verbatim>\<open>drizzle()\<close> when that is the
  connection's driver) creates the client through that driver, stores it and marks the
  connection connected. After any further calls of the three accessors, for this or other
  connections, a call for the same name returns the stored client and changes neither
  the manager nor the trace: the driver's \<^verbatim>\<open>createClient\<close> has run exactly once for
  the name.
\<close>

theorem client_creation_is_cached:
  assumes "or_else conn (defaultConnection m) = name"
    and "connections m name = Some cfg" "clients m name = None"
    and "drivers m (driver cfg) = Some d" "drv_createClient d tr cfg name = Inr c"
    and "run_accesses (fst (snd (client m tr conn))) (snd (snd (client m tr conn))) as = (m2, tr2)"
    and "or_else conn' (defaultConnection m) = name"
  shows "client m tr conn =
           (Inr c,
            m\<lparr> clients := (clients m)(name \<mapsto> c),
               connectedClients := insert name (connectedClients m) \<rparr>,
            tr @ [CreateClient (driver cfg) name])
       \<and> (driver cfg = ''prisma'' \<longrightarrow> prisma m tr conn = client m tr conn)
       \<and> (driver cfg = ''drizzle'' \<longrightarrow> drizzle m tr conn = client m tr conn)
       \<and> client m2 tr2 conn' = (Inr c, m2, tr2)
       \<and> (driver cfg = ''prisma'' \<longrightarrow> prisma m2 tr2 conn' = (Inr c, m2, tr2))
       \<and> (driver cfg = ''drizzle'' \<longrightarrow> drizzle m2 tr2 conn' = (Inr c, m2, tr2))
       \<and> creations name tr2 = creations name tr + 1"
proof -
  let ?m1 = "m\<lparr> clients := (clients m)(name \<mapsto> c),
               connectedClients := insert name (connectedClients m) \<rparr>"
  let ?tr1 = "tr @ [CreateClient (driver cfg) name]"
  have first: "client m tr conn = (Inr c, ?m1, ?tr1)"
    using assms(1) getOrCreateClient_created [OF assms(3) assms(2) assms(4) assms(5)]
    by (simp add: client_def Let_def)
  have p: "driver cfg = ''prisma'' \<longrightarrow> prisma m tr conn = client m tr conn"
    using assms(1,2) by (simp add: prisma_def client_def Let_def)
  have z: "driver cfg = ''drizzle'' \<longrightarrow> drizzle m tr conn = client m tr conn"
    using assms(1,2) by (simp add: drizzle_def client_def Let_def)
  have stored: "clients ?m1 name = Some c" by simp
  have run: "run_accesses ?m1 ?tr1 as = (m2, tr2)" using assms(6) first by simp
  from run_accesses_keeps [OF stored run]
  have k: "clients m2 name = Some c" "defaultConnection m2 = defaultConnection m"
    "connections m2 = connections m" "creations name tr2 = creations name ?tr1"
    by simp_all
  have nm: "or_else conn' (defaultConnection m2) = name" using assms(7) k(2) by simp
  have later: "client m2 tr2 conn' = (Inr c, m2, tr2)"
    using nm k(1) by (simp add: client_def Let_def getOrCreateClient_cached)
  have lp: "driver cfg = ''prisma'' \<longrightarrow> prisma m2 tr2 conn' = (Inr c, m2, tr2)"
    using nm k(1,3) assms(2) by (simp add: prisma_def Let_def getOrCreateClient_cached)
  have lz: "driver cfg = ''drizzle'' \<longrightarrow> drizzle m2 tr2 conn' = (Inr c, m2, tr2)"
    using nm k(1,3) assms(2) by (simp add: drizzle_def Let_def getOrCreateClient_cached)
  have cnt: "creations name tr2 = creations name tr + 1"
    using k(4) by (simp add: creations_append)
  from first p z later lp lz cnt show ?thesis by blast
qed

theorem client_creation_witness:
  "fst (client (new_DatabaseManager example_orm example_config) [] None)
     = Inr (JObj [(''orm'', JStr ''prisma''), (''created'', JNum 0), (''$disconnect'', JBool True)])
   \<and> fst (client
        (fst (run_accesses
               (fst (snd (client (new_DatabaseManager example_orm example_config) [] None)))
               (snd (snd (client (new_DatabaseManager example_orm example_config) [] None)))
               [Drizzle None, Client (Some ''default''), Prisma None]))
        (snd (run_accesses
               (fst (snd (client (new_DatabaseManager example_orm example_config) [] None)))
               (snd (snd (client (new_DatabaseManager example_orm example_config) [] None)))
               [Drizzle None, Client (Some ''default''), Prisma None]))
        (Some ''default''))
     = Inr (JObj [(''orm'', JStr ''prisma''), (''created'', JNum 0), (''$disconnect'', JBool True)])
   \<and> creations ''default''
        (snd (run_accesses
               (fst (snd (client (new_DatabaseManager example_orm example_config) [] None)))
               (snd (snd (client (new_DatabaseManager example_orm example_config) [] None)))
               [Drizzle None, Client (Some ''default''), Prisma None]))
     = 1"
proof -
  let ?m = "new_DatabaseManager example_orm example_config"
  let ?cfg = "\<lparr> driver = ''prisma'', url = Some ''postgresql://localhost/app'',
              connection = None, pool = None \<rparr>"
  let ?c = "JObj [(''orm'', JStr ''prisma''), (''created'', JNum 0), (''$disconnect'', JBool True)]"
  let ?run = "run_accesses (fst (snd (client ?m [] None))) (snd (snd (client ?m [] None)))
               [Drizzle None, Client (Some ''default''), Prisma None]"
  have a: "or_else None (defaultConnection ?m) = ''default''"
    by (simp add: example_manager_fields)
  have b: "clients ?m ''default'' = None" by (simp add: example_manager_fields)
  have c: "drivers ?m (driver ?cfg) = Some (PrismaDriver example_orm)"
    by (simp add: example_manager_fields)
  have d: "drv_createClient (PrismaDriver example_orm) [] ?cfg ''default'' = Inr ?c"
    by (simp add: PrismaDriver_def example_orm_def)
  have e: "?run = (fst ?run, snd ?run)" by simp
  have f: "or_else (Some ''default'') (defaultConnection ?m) = ''default''" by simp
  note T = client_creation_is_cached [OF a example_manager_fields(2) b c d e f]
  note T1 = T [THEN conjunct1]
  note T4 = T [THEN conjunct2, THEN conjunct2, THEN conjunct2, THEN conjunct1]
  note T7 = T [THEN conjunct2, THEN conjunct2, THEN conjunct2, THEN conjunct2, THEN conjunct2,
               THEN conjunct2]
  have c0: "creations ''default'' [] = 0" by (simp add: creations_def)
  have 1: "fst (client ?m [] None) = Inr ?c" by (simp only: T1 fst_conv)
  have 2: "fst (client (fst ?run) (snd ?run) (Some ''default'')) = Inr ?c"
    by (simp only: T4 fst_conv)
  have 3: "creations ''default'' (snd ?run) = 1" by (simp only: T7 c0 add_0)
  from 1 2 3 show ?thesis by (intro conjI)
qed

text \<open>
  The claim as stated fails for a configured connection whose client cannot be created:
  the first \<^verbatim>\<open>client('analytics')\<close> throws, nothing is stored, the connection is not
  marked connected, and the next call invokes the driver's \<^verbatim>\<open>createClient\<close> again.
\<close>

theorem failed_creation_is_not_cached_counterexample:
  "connections (new_DatabaseManager example_orm example_config) ''analytics'' \<noteq> None
   \<and> client (new_DatabaseManager example_orm example_config) [] (Some ''analytics'')
     = (Inl (DatabaseClientCreationError ''drizzle''
              (JObj [(''name'', JStr ''Error''),
                     (''message'', JStr ''Drizzle connection URL is required in config'')])),
        new_DatabaseManager example_orm example_config,
        [CreateClient ''drizzle'' ''analytics''])
   \<and> clients (new_DatabaseManager example_orm example_config) ''analytics'' = None
   \<and> ''analytics'' \<notin> connectedClients (new_DatabaseManager example_orm example_config)
   \<and> snd (snd (client (new_DatabaseManager example_orm example_config)
                  [CreateClient ''drizzle'' ''analytics''] (Some ''analytics'')))
     = [CreateClient ''drizzle'' ''analytics'', CreateClient ''drizzle'' ''analytics'']"
proof -
  let ?m = "new_DatabaseManager example_orm example_config"
  let ?cfg = "\<lparr> driver = ''drizzle'', url = None, connection = None, pool = None \<rparr>"
  have b: "drv_createClient (DrizzleDriver example_orm) tr ?cfg ''analytics''
        = Inl (JObj [(''name'', JStr ''Error''),
                     (''message'', JStr ''Drizzle connection URL is required in config'')])" for tr
    by (simp add: DrizzleDriver_def buildUrlFromConnection_def)
  have "getOrCreateClient ?m tr ''analytics''
        = (Inl (DatabaseClientCreationError (driver ?cfg)
              (JObj [(''name'', JStr ''Error''),
                     (''message'', JStr ''Drizzle connection URL is required in config'')])),
           ?m, tr @ [CreateClient (driver ?cfg) ''analytics''])" for tr
    by (rule getOrCreateClient_failed [where d = "DrizzleDriver example_orm"])
       (simp_all add: example_manager_fields b)
  then show ?thesis
    by (simp add: client_def Let_def example_manager_fields)
qed

end
